theory Spec2Isabelle
  imports Main "HOL-Library.AList"
begin

section \<open>Python values and dictionaries\<close>

text \<open>
  The workflow manager of \<^verbatim>\<open>phi/workflow/workflow.py\<close> handles free-form
  \<^verbatim>\<open>Dict[str, Any]\<close> values.  A Python value is modelled by \<open>pyval\<close>; a
  dictionary is an association list in insertion order.  Assignment \<^verbatim>\<open>d[k] = v\<close>
  is \<open>AList.update k v d\<close> (an existing key keeps its position, a new key is appended),
  \<^verbatim>\<open>k in d\<close> is \<open>map_of d k \<noteq> None\<close>.
\<close>

datatype pyval =
    PNone
  | PBool bool
  | PInt int
  | PStr string
  | PList "pyval list"
  | PDict "(string \<times> pyval) list"

type_synonym dict = "(string \<times> pyval) list"

text \<open>\<^verbatim>\<open>isinstance(v, dict)\<close>, giving the dictionary.\<close>

fun as_dict :: "pyval \<Rightarrow> dict option" where
  "as_dict (PDict d) = Some d"
| "as_dict _ = None"

text \<open>\<^verbatim>\<open>d.get(k)\<close>: the value, or \<^verbatim>\<open>None\<close> for a missing key.\<close>

definition dict_get :: "dict \<Rightarrow> string \<Rightarrow> pyval" where
  "dict_get d k = (case map_of d k of None \<Rightarrow> PNone | Some v \<Rightarrow> v)"

text \<open>The size of a dictionary that counts the nested values (the measure of the merge).\<close>

abbreviation dict_size :: "dict \<Rightarrow> nat" where
  "dict_size \<equiv> size_list (size_prod (\<lambda>_. 0) size)"

text \<open>
  Modelled from the spec: \<^verbatim>\<open>merge_dictionaries\<close> of \<^verbatim>\<open>phi.utils.merge_dict\<close> is
  imported by the workflow module and is not part of the sources at hand.  The
  specification (Session State Merger) gives it as: the persisted map is mutated in place
  by inserting every key present in \<open>local\<close> but absent in \<open>persisted\<close>; for keys present
  in both where the value is itself a map, recursing; for keys present in both with
  non-map values, the local value wins.  The merged persisted map is the result.  Where
  only one of the two values is a map there is nothing to recurse into and the local
  value wins as well (local state takes precedence over structurally conflicting
  persisted keys).  The keys of \<open>local\<close> are visited in their order.
\<close>

function merge_dictionaries :: "dict \<Rightarrow> dict \<Rightarrow> dict" where
  "merge_dictionaries persisted [] = persisted"
| "merge_dictionaries persisted ((k, v) # local) =
     merge_dictionaries
       (case map_of persisted k of
          None \<Rightarrow> AList.update k v persisted
        | Some pv \<Rightarrow>
            (case as_dict pv of
               None \<Rightarrow> AList.update k v persisted
             | Some pm \<Rightarrow>
                 (case as_dict v of
                    None \<Rightarrow> AList.update k v persisted
                  | Some lm \<Rightarrow> AList.update k (PDict (merge_dictionaries pm lm)) persisted)))
       local"
  by pat_completeness auto
termination
  apply (relation "measure (\<lambda>(p, l). dict_size l)")
    apply simp
  subgoal for persisted k v local pv pm lm
    by (cases v) simp_all
  subgoal
    by simp
  done

section \<open>The data model of the workflow module\<close>

text \<open>
  \<^verbatim>\<open>RunResponse\<close> (imported from \<^verbatim>\<open>phi.run.response\<close>): the fields that the workflow
  module reads and writes.  \<open>rr_content\<close> is \<^verbatim>\<open>Optional[Any]\<close>, \<open>PNone\<close> when unset.
\<close>

record run_response =
  rr_run_id :: "string option"
  rr_session_id :: "string option"
  rr_workflow_id :: "string option"
  rr_content :: pyval

text \<open>\<^verbatim>\<open>WorkflowRun(input=..., response=...)\<close>, one entry of the run history.\<close>

record workflow_run =
  input :: "dict option"
  response :: run_response

text \<open>\<^verbatim>\<open>WorkflowSession\<close>, the record kept by the storage backend.\<close>

record workflow_session =
  ws_session_id :: "string option"
  ws_workflow_id :: "string option"
  ws_user_id :: "string option"
  ws_memory :: "dict option"
  ws_workflow_data :: "dict option"
  ws_user_data :: "dict option"
  ws_session_data :: "dict option"
  ws_session_state :: "dict option"

text \<open>
  Modelled from the spec: the \<^verbatim>\<open>WorkflowStorage\<close> backend is an external collaborator
  (\<^verbatim>\<open>phi.storage.workflow\<close>) with the interface \<^verbatim>\<open>read(session_id) -> record | absent\<close>,
  \<^verbatim>\<open>upsert(session) -> record | failure\<close>.  The model is a table of records by session
  id, a flag saying whether the backend accepts writes, and the list of calls received so
  far (oldest first), which lets the theorems count reads and upserts.  A failing upsert
  returns nothing and leaves the table as it is; a record without a session id cannot be
  stored.
\<close>

datatype store_op = Read string | Upsert workflow_session

record storage =
  table :: "(string \<times> workflow_session) list"
  writable :: bool
  ops :: "store_op list"

text \<open>Modelled from the spec: \<^verbatim>\<open>read(session_id)\<close>, the record or nothing.\<close>

definition storage_read :: "storage \<Rightarrow> string \<Rightarrow> workflow_session option \<times> storage" where
  "storage_read st sid = (map_of (table st) sid, st\<lparr>ops := ops st @ [Read sid]\<rparr>)"

text \<open>Modelled from the spec: \<^verbatim>\<open>upsert(session)\<close>, the record as stored or nothing.\<close>

definition storage_upsert :: "storage \<Rightarrow> workflow_session \<Rightarrow> workflow_session option \<times> storage" where
  "storage_upsert st s =
     (let st' = st\<lparr>ops := ops st @ [Upsert s]\<rparr> in
      case ws_session_id s of
        None \<Rightarrow> (None, st')
      | Some sid \<Rightarrow>
          if writable st then (Some s, st'\<lparr>table := AList.update sid s (table st)\<rparr>)
          else (None, st'))"

text \<open>The calls that are upserts.\<close>

fun is_upsert :: "store_op \<Rightarrow> bool" where
  "is_upsert (Upsert _) = True"
| "is_upsert (Read _) = False"

text \<open>Warnings sent to the logger (debug messages are not modelled).\<close>

datatype warning =
    FailedToLoadWorkflowMemory
  | YieldedNotRunResponse
  | ReturnedNotRunResponse

text \<open>
  The \<^verbatim>\<open>Workflow\<close> object.  \<open>name\<close> and \<open>session_name\<close> are declared \<^verbatim>\<open>Optional[str]\<close>
  but are assigned from dictionary values without validation, hence \<open>pyval\<close> with
  \<open>PNone\<close> for \<^verbatim>\<open>None\<close>.  \<open>memory_runs\<close> is \<^verbatim>\<open>self.memory.runs\<close>, \<open>workflow_session\<close> is
  the private \<^verbatim>\<open>_workflow_session\<close>, \<open>warnings\<close> collects the logger's warnings.
\<close>

record workflow =
  name :: pyval
  workflow_id :: "string option"
  workflow_data :: "dict option"
  user_id :: "string option"
  user_data :: "dict option"
  session_id :: "string option"
  session_name :: pyval
  session_data :: "dict option"
  session_state :: "dict option"
  memory_runs :: "workflow_run list"
  storage :: "storage option"
  workflow_session :: "workflow_session option"
  run_id :: "string option"
  run_input :: "dict option"
  run_response :: run_response
  warnings :: "warning list"

text \<open>
  The serialisation of the run history belongs to \<^verbatim>\<open>phi.memory.workflow\<close>, which is not
  part of the sources at hand; it is a parameter of the model: \<open>to_dict\<close> is
  \<^verbatim>\<open>WorkflowMemory.to_dict()\<close> on the list of runs, \<open>WorkflowRun_init\<close> is the constructor
  call \<^verbatim>\<open>WorkflowRun(**m)\<close> on the keyword arguments \<open>m\<close>, \<open>None\<close> when it raises.
\<close>

record codec =
  to_dict :: "workflow_run list \<Rightarrow> dict"
  WorkflowRun_init :: "dict \<Rightarrow> workflow_run option"

datatype error =
    Exception string
  | AttributeError
  | TypeError

section \<open>Construction\<close>

text \<open>Python truthiness, for \<^verbatim>\<open>self.name or self.__class__.__name__\<close>.\<close>

fun py_truthy :: "pyval \<Rightarrow> bool" where
  "py_truthy PNone = False"
| "py_truthy (PBool b) = b"
| "py_truthy (PInt i) = (i \<noteq> 0)"
| "py_truthy (PStr s) = (s \<noteq> [])"
| "py_truthy (PList xs) = (xs \<noteq> [])"
| "py_truthy (PDict d) = (d \<noteq> [])"

text \<open>
  The part of \<^verbatim>\<open>__init__\<close> that sets the name (the rest inspects the signature of the
  subclass's \<^verbatim>\<open>run\<close> method); \<open>cls\<close> is the class name.
\<close>

definition init_name :: "string \<Rightarrow> workflow \<Rightarrow> workflow" where
  "init_name cls w = w\<lparr>name := (if py_truthy (name w) then name w else PStr cls)\<rparr>"

section \<open>Saving: \<^verbatim>\<open>get_workflow_session\<close>\<close>

text \<open>
  \<^verbatim>\<open>self.workflow_data or {}\<close> is the workflow's own dictionary when that is non-empty,
  and a new empty one otherwise; in the first case the assignment of the name mutates
  \<^verbatim>\<open>self.workflow_data\<close> as well.  The functions return the dictionary and the workflow.
\<close>

definition get_workflow_data :: "workflow \<Rightarrow> dict \<times> workflow" where
  "get_workflow_data w =
     (let own = (case workflow_data w of None \<Rightarrow> False | Some d \<Rightarrow> d \<noteq> []);
          d = (case workflow_data w of None \<Rightarrow> [] | Some d \<Rightarrow> d)
      in if name w \<noteq> PNone then
           (let d' = AList.update ''name'' (name w) d
            in (d', if own then w\<lparr>workflow_data := Some d'\<rparr> else w))
         else (d, w))"

definition get_session_data :: "workflow \<Rightarrow> dict \<times> workflow" where
  "get_session_data w =
     (let own = (case session_data w of None \<Rightarrow> False | Some d \<Rightarrow> d \<noteq> []);
          d = (case session_data w of None \<Rightarrow> [] | Some d \<Rightarrow> d)
      in if session_name w \<noteq> PNone then
           (let d' = AList.update ''session_name'' (session_name w) d
            in (d', if own then w\<lparr>session_data := Some d'\<rparr> else w))
         else (d, w))"

definition get_workflow_session :: "codec \<Rightarrow> workflow \<Rightarrow> workflow_session \<times> workflow" where
  "get_workflow_session C w =
     (let mem = to_dict C (memory_runs w);
          (wd, w1) = get_workflow_data w;
          (sd, w2) = get_session_data w1
      in (\<lparr>ws_session_id = session_id w2,
           ws_workflow_id = workflow_id w2,
           ws_user_id = user_id w2,
           ws_memory = Some mem,
           ws_workflow_data = Some wd,
           ws_user_data = user_data w2,
           ws_session_data = Some sd,
           ws_session_state = session_state w2\<rparr>, w2))"

section \<open>Loading: \<^verbatim>\<open>from_workflow_session\<close>\<close>

text \<open>
  \<^verbatim>\<open>from_workflow_session\<close> mutates both the workflow and the session it is given
  (\<^verbatim>\<open>merge_dictionaries\<close> updates the session's dictionaries in place), so every block
  of it maps a pair of workflow and session to the updated pair.  The blocks follow the
  comments of the source.
\<close>

text \<open>Get the session_id, workflow_id and user_id from the database.\<close>

definition fws_ids :: "workflow \<times> workflow_session \<Rightarrow> workflow \<times> workflow_session" where
  "fws_ids = (\<lambda>(w, s).
     (let w1 = (if session_id w = None \<and> ws_session_id s \<noteq> None
                then w\<lparr>session_id := ws_session_id s\<rparr> else w);
          w2 = (if workflow_id w1 = None \<and> ws_workflow_id s \<noteq> None
                then w1\<lparr>workflow_id := ws_workflow_id s\<rparr> else w1);
          w3 = (if user_id w2 = None \<and> ws_user_id s \<noteq> None
                then w2\<lparr>user_id := ws_user_id s\<rparr> else w2)
      in (w3, s)))"

text \<open>Read workflow_data from the database.\<close>

definition fws_workflow_data :: "workflow \<times> workflow_session \<Rightarrow> workflow \<times> workflow_session" where
  "fws_workflow_data = (\<lambda>(w, s).
     (case ws_workflow_data s of
        None \<Rightarrow> (w, s)
      | Some pd \<Rightarrow>
          (let w1 = (if name w = PNone \<and> map_of pd ''name'' \<noteq> None
                     then w\<lparr>name := dict_get pd ''name''\<rparr> else w);
               pd' = (case workflow_data w1 of
                        None \<Rightarrow> pd
                      | Some ld \<Rightarrow> merge_dictionaries pd ld)
           in (w1\<lparr>workflow_data := Some pd'\<rparr>, s\<lparr>ws_workflow_data := Some pd'\<rparr>))))"

text \<open>Read user_data from the database.\<close>

definition fws_user_data :: "workflow \<times> workflow_session \<Rightarrow> workflow \<times> workflow_session" where
  "fws_user_data = (\<lambda>(w, s).
     (case ws_user_data s of
        None \<Rightarrow> (w, s)
      | Some pd \<Rightarrow>
          (let pd' = (case user_data w of
                        None \<Rightarrow> pd
                      | Some ld \<Rightarrow> merge_dictionaries pd ld)
           in (w\<lparr>user_data := Some pd'\<rparr>, s\<lparr>ws_user_data := Some pd'\<rparr>))))"

text \<open>Read session_data from the database.\<close>

definition fws_session_data :: "workflow \<times> workflow_session \<Rightarrow> workflow \<times> workflow_session" where
  "fws_session_data = (\<lambda>(w, s).
     (case ws_session_data s of
        None \<Rightarrow> (w, s)
      | Some pd \<Rightarrow>
          (let w1 = (if session_name w = PNone \<and> map_of pd ''session_name'' \<noteq> None
                     then w\<lparr>session_name := dict_get pd ''session_name''\<rparr> else w);
               pd' = (case session_data w1 of
                        None \<Rightarrow> pd
                      | Some ld \<Rightarrow> merge_dictionaries pd ld)
           in (w1\<lparr>session_data := Some pd'\<rparr>, s\<lparr>ws_session_data := Some pd'\<rparr>))))"

text \<open>Read session_state from the database.\<close>

definition fws_session_state :: "workflow \<times> workflow_session \<Rightarrow> workflow \<times> workflow_session" where
  "fws_session_state = (\<lambda>(w, s).
     (case ws_session_state s of
        None \<Rightarrow> (w, s)
      | Some pd \<Rightarrow>
          (let pd' = (case session_state w of
                        None \<Rightarrow> pd
                      | Some ld \<Rightarrow> merge_dictionaries pd ld)
           in (w\<lparr>session_state := Some pd'\<rparr>, s\<lparr>ws_session_state := Some pd'\<rparr>))))"

text \<open>
  Read memory from the database.  \<^verbatim>\<open>for m in session.memory["runs"]\<close> iterates a list
  over its elements, a dictionary over its keys and a string over its characters, and
  raises for the other values.
\<close>

fun py_iter :: "pyval \<Rightarrow> pyval list option" where
  "py_iter (PList xs) = Some xs"
| "py_iter (PDict d) = Some (map (\<lambda>kv. PStr (fst kv)) d)"
| "py_iter (PStr s) = Some (map (\<lambda>c. PStr [c]) s)"
| "py_iter _ = None"

text \<open>
  The list comprehension \<^verbatim>\<open>[WorkflowRun(**m) for m in ...]\<close>: \<open>None\<close> when the
  construction of any element raises (\<^verbatim>\<open>**m\<close> itself raises unless \<open>m\<close> is a mapping).
\<close>

fun build_runs :: "codec \<Rightarrow> pyval list \<Rightarrow> workflow_run list option" where
  "build_runs C [] = Some []"
| "build_runs C (m # ms) =
     (case as_dict m of
        None \<Rightarrow> None
      | Some kw \<Rightarrow>
          (case WorkflowRun_init C kw of
             None \<Rightarrow> None
           | Some r \<Rightarrow>
               (case build_runs C ms of
                  None \<Rightarrow> None
                | Some rs \<Rightarrow> Some (r # rs))))"

definition load_runs :: "codec \<Rightarrow> pyval \<Rightarrow> workflow_run list option" where
  "load_runs C v = (case py_iter v of None \<Rightarrow> None | Some ms \<Rightarrow> build_runs C ms)"

definition fws_memory :: "codec \<Rightarrow> workflow \<times> workflow_session \<Rightarrow> workflow \<times> workflow_session" where
  "fws_memory C = (\<lambda>(w, s).
     (case ws_memory s of
        None \<Rightarrow> (w, s)
      | Some mem \<Rightarrow>
          (case map_of mem ''runs'' of
             None \<Rightarrow> (w, s)
           | Some v \<Rightarrow>
               (case load_runs C v of
                  None \<Rightarrow> (w\<lparr>warnings := warnings w @ [FailedToLoadWorkflowMemory]\<rparr>, s)
                | Some rs \<Rightarrow> (w\<lparr>memory_runs := rs\<rparr>, s)))))"

definition from_workflow_session :: "codec \<Rightarrow> workflow \<Rightarrow> workflow_session \<Rightarrow> workflow \<times> workflow_session" where
  "from_workflow_session C w session =
     fws_memory C (fws_session_state (fws_session_data (fws_user_data
       (fws_workflow_data (fws_ids (w, session))))))"

section \<open>Storage: \<^verbatim>\<open>read_from_storage\<close>, \<^verbatim>\<open>write_to_storage\<close>, \<^verbatim>\<open>load_session\<close>\<close>

text \<open>
  Both functions also return \<^verbatim>\<open>self._workflow_session\<close>; that is the field
  \<open>workflow_session\<close> of the workflow they return.  The session read from the backend and
  the cached \<^verbatim>\<open>_workflow_session\<close> are one object, so the cache holds the session as
  \<^verbatim>\<open>from_workflow_session\<close> has left it.
\<close>

definition read_from_storage :: "codec \<Rightarrow> workflow \<Rightarrow> workflow" where
  "read_from_storage C w =
     (case storage w of
        None \<Rightarrow> w
      | Some st \<Rightarrow>
          (case session_id w of
             None \<Rightarrow> w
           | Some sid \<Rightarrow>
               (let (r, st') = storage_read st sid;
                    w1 = w\<lparr>storage := Some st', workflow_session := r\<rparr>
                in case r of
                     None \<Rightarrow> w1
                   | Some s \<Rightarrow>
                       (let (w2, s') = from_workflow_session C w1 s
                        in w2\<lparr>workflow_session := Some s'\<rparr>))))"

definition write_to_storage :: "codec \<Rightarrow> workflow \<Rightarrow> workflow" where
  "write_to_storage C w =
     (case storage w of
        None \<Rightarrow> w
      | Some st \<Rightarrow>
          (let (session, w1) = get_workflow_session C w;
               (r, st') = storage_upsert st session
           in w1\<lparr>storage := Some st', workflow_session := r\<rparr>))"

definition load_session :: "codec \<Rightarrow> bool \<Rightarrow> workflow \<Rightarrow> (error + string option) \<times> workflow" where
  "load_session C force w =
     (if workflow_session w \<noteq> None \<and> \<not> force \<and> session_id w \<noteq> None
         \<and> ws_session_id (the (workflow_session w)) = session_id w
      then (Inr (ws_session_id (the (workflow_session w))), w)
      else
        (case storage w of
           None \<Rightarrow> (Inr (session_id w), w)
         | Some _ \<Rightarrow>
             (let w1 = read_from_storage C w
              in if workflow_session w1 = None then
                   (let w2 = write_to_storage C w1
                    in if workflow_session w2 = None
                       then (Inl (Exception ''Failed to create new WorkflowSession in storage''), w2)
                       else (Inr (session_id w2), w2))
                 else (Inr (session_id w1), w1))))"

section \<open>Running: \<^verbatim>\<open>run_workflow\<close>\<close>

text \<open>
  What the subclass's \<^verbatim>\<open>run\<close> method hands back: an iterator (the finite sequence of
  the items it will yield, each a \<^verbatim>\<open>RunResponse\<close> or some other value), a single
  \<^verbatim>\<open>RunResponse\<close>, or anything else.  The responses it builds are objects of their own,
  distinct from the workflow's \<^verbatim>\<open>run_response\<close>, and \<^verbatim>\<open>run\<close> reads the workflow without
  modifying it.
\<close>

datatype item = Resp run_response | NotResp pyval

datatype run_result = Iterator "item list" | Response run_response | Unexpected pyval

text \<open>Update the run_id, session_id and workflow_id of a \<^verbatim>\<open>RunResponse\<close>.\<close>

definition stamp :: "workflow \<Rightarrow> run_response \<Rightarrow> run_response" where
  "stamp w r = r\<lparr>rr_run_id := run_id w, rr_session_id := session_id w,
                 rr_workflow_id := workflow_id w\<rparr>"

text \<open>
  Modelled from the spec: \<^verbatim>\<open>WorkflowMemory.add_run\<close> (\<^verbatim>\<open>phi.memory.workflow\<close>) is the
  Run History collaborator's append; a record is immutable once appended and the order of
  the history is the order of the appends.
\<close>

definition add_run :: "workflow_run \<Rightarrow> workflow \<Rightarrow> workflow" where
  "add_run r w = w\<lparr>memory_runs := memory_runs w @ [r]\<rparr>"

text \<open>
  \<^verbatim>\<open>self.run_response.content += s\<close> for a string \<open>s\<close>: concatenation on a string, extension
  by the characters on a list, \<^verbatim>\<open>TypeError\<close> on the other values.
\<close>

fun content_iadd :: "pyval \<Rightarrow> string \<Rightarrow> error + pyval" where
  "content_iadd (PStr a) s = Inr (PStr (a @ s))"
| "content_iadd (PList xs) s = Inr (PList (xs @ map (\<lambda>c. PStr [c]) s))"
| "content_iadd _ s = Inl TypeError"

text \<open>
  The generator object \<^verbatim>\<open>result_generator()\<close>: it is suspended in front of the items
  still to come, or it has returned.  \<open>gen_next\<close> is one \<^verbatim>\<open>next()\<close> on it, in the state the
  workflow has at that moment: it yields \<open>Some item\<close>, or ends with \<open>None\<close>
  (\<^verbatim>\<open>StopIteration\<close>).  The code after the loop runs in the call that finds the underlying
  iterator exhausted.
\<close>

datatype gen = Running "item list" | Exhausted

fun gen_next :: "codec \<Rightarrow> gen \<Rightarrow> workflow \<Rightarrow> error + (item option \<times> gen \<times> workflow)" where
  "gen_next C Exhausted w = Inr (None, Exhausted, w)"
| "gen_next C (Running []) w =
     (let w1 = add_run \<lparr>input = run_input w, response = run_response w\<rparr> w;
          w2 = write_to_storage C w1
      in Inr (None, Exhausted, w2))"
| "gen_next C (Running (Resp r # rest)) w =
     (let r' = stamp w r
      in case rr_content r' of
           PStr s \<Rightarrow>
             (case content_iadd (rr_content (run_response w)) s of
                Inl e \<Rightarrow> Inl e
              | Inr c \<Rightarrow>
                  Inr (Some (Resp r'), Running rest,
                       w\<lparr>run_response := (run_response w)\<lparr>rr_content := c\<rparr>\<rparr>))
         | _ \<Rightarrow> Inr (Some (Resp r'), Running rest, w))"
| "gen_next C (Running (NotResp v # rest)) w =
     Inr (Some (NotResp v), Running rest,
          w\<lparr>warnings := warnings w @ [YieldedNotRunResponse]\<rparr>)"

text \<open>
  A consumer that calls \<^verbatim>\<open>next()\<close> \<open>n\<close> times and collects what is yielded.  A
  \<^verbatim>\<open>for\<close> loop over a generator of \<open>k\<close> items makes \<open>k + 1\<close> calls: the last one finds
  the generator finished.
\<close>

fun pulls :: "codec \<Rightarrow> nat \<Rightarrow> gen \<Rightarrow> workflow \<Rightarrow> error + (item list \<times> gen \<times> workflow)" where
  "pulls C 0 g w = Inr ([], g, w)"
| "pulls C (Suc n) g w =
     (case gen_next C g w of
        Inl e \<Rightarrow> Inl e
      | Inr (None, g', w') \<Rightarrow> pulls C n g' w'
      | Inr (Some x, g', w') \<Rightarrow>
          (case pulls C n g' w' of
             Inl e \<Rightarrow> Inl e
           | Inr (xs, g'', w'') \<Rightarrow> Inr (x # xs, g'', w'')))"

text \<open>
  \<^verbatim>\<open>run_workflow\<close> up to the call of the subclass's \<^verbatim>\<open>run\<close>: \<open>rid\<close> is the value of
  \<^verbatim>\<open>str(uuid4())\<close>, the tuple \<open>args\<close> is kept as a list.
\<close>

definition run_workflow_begin :: "codec \<Rightarrow> string \<Rightarrow> pyval list \<Rightarrow> dict \<Rightarrow> workflow \<Rightarrow> workflow" where
  "run_workflow_begin C rid args kwargs w =
     read_from_storage C
       (w\<lparr>run_id := Some rid,
          run_input := Some [(''args'', PList args), (''kwargs'', PDict kwargs)],
          run_response := \<lparr>rr_run_id = Some rid, rr_session_id = session_id w,
                            rr_workflow_id = workflow_id w, rr_content = PNone\<rparr>\<rparr>)"

datatype run_return = Generator gen | Returned run_response | ReturnedNone

text \<open>
  \<open>subclass_run\<close> is \<^verbatim>\<open>self._subclass_run\<close>, a method bound to the workflow: it sees the
  workflow as \<open>run_workflow_begin\<close> has left it.
\<close>

definition run_workflow ::
  "codec \<Rightarrow> (workflow \<Rightarrow> pyval list \<Rightarrow> dict \<Rightarrow> run_result) \<Rightarrow> string \<Rightarrow> pyval list \<Rightarrow> dict
     \<Rightarrow> workflow \<Rightarrow> run_return \<times> workflow" where
  "run_workflow C subclass_run rid args kwargs w =
     (let w1 = run_workflow_begin C rid args kwargs w
      in case subclass_run w1 args kwargs of
           Iterator items \<Rightarrow>
             (Generator (Running items),
              w1\<lparr>run_response := (run_response w1)\<lparr>rr_content := PStr []\<rparr>\<rparr>)
         | Response result \<Rightarrow>
             (let result' = stamp w1 result;
                  w2 = (case rr_content result' of
                          PStr s \<Rightarrow> w1\<lparr>run_response := (run_response w1)\<lparr>rr_content := PStr s\<rparr>\<rparr>
                        | _ \<Rightarrow> w1);
                  w3 = add_run \<lparr>input = run_input w2, response = run_response w2\<rparr> w2;
                  w4 = write_to_storage C w3
              in (Returned result', w4))
         | Unexpected v \<Rightarrow>
             (ReturnedNone, w1\<lparr>warnings := warnings w1 @ [ReturnedNotRunResponse]\<rparr>))"

section \<open>Renaming: \<^verbatim>\<open>rename_session\<close>\<close>

text \<open>
  \<^verbatim>\<open>self.storage.read\<close> on a workflow without storage is an attribute access on
  \<^verbatim>\<open>None\<close>; the item assignment on a session whose \<^verbatim>\<open>session_data\<close> is \<^verbatim>\<open>None\<close> is a
  \<^verbatim>\<open>TypeError\<close>.  The result of the upsert is dropped and the cached
  \<^verbatim>\<open>_workflow_session\<close> is left alone.
\<close>

definition rename_session :: "string \<Rightarrow> string \<Rightarrow> workflow \<Rightarrow> (error + unit) \<times> workflow" where
  "rename_session sid nm w =
     (case storage w of
        None \<Rightarrow> (Inl AttributeError, w)
      | Some st \<Rightarrow>
          (let (r, st1) = storage_read st sid;
               w1 = w\<lparr>storage := Some st1\<rparr>
           in case r of
                None \<Rightarrow> (Inl (Exception (''WorkflowSession not found: '' @ sid)), w1)
              | Some session \<Rightarrow>
                  (case ws_session_data session of
                     None \<Rightarrow> (Inl TypeError, w1)
                   | Some d \<Rightarrow>
                       (let session' = session\<lparr>ws_session_data :=
                                          Some (AList.update ''session_name'' (PStr nm) d)\<rparr>;
                            (r', st2) = storage_upsert st1 session'
                        in (Inr (), w1\<lparr>storage := Some st2\<rparr>)))))"

section \<open>Notions used to state the properties\<close>

subsection \<open>Loading\<close>

text \<open>The merge of a persisted dictionary with the workflow's one, which may be unset.\<close>

definition merged :: "dict \<Rightarrow> dict option \<Rightarrow> dict" where
  "merged pd l = (case l of None \<Rightarrow> pd | Some ld \<Rightarrow> merge_dictionaries pd ld)"

definition merge_opt :: "dict option \<Rightarrow> dict option \<Rightarrow> dict option" where
  "merge_opt p l = (case p of None \<Rightarrow> l | Some pd \<Rightarrow> Some (merged pd l))"

text \<open>An identifier is taken from the session only when the workflow has none.\<close>

definition adopt :: "'a option \<Rightarrow> 'a option \<Rightarrow> 'a option" where
  "adopt own persisted = (case own of None \<Rightarrow> persisted | Some x \<Rightarrow> Some x)"

definition adopt_name :: "pyval \<Rightarrow> dict option \<Rightarrow> string \<Rightarrow> pyval" where
  "adopt_name own pd k =
     (case pd of
        None \<Rightarrow> own
      | Some d \<Rightarrow> if own = PNone \<and> map_of d k \<noteq> None then dict_get d k else own)"

text \<open>The run history after a load, and whether the load of the history failed.\<close>

definition history_after :: "codec \<Rightarrow> workflow_run list \<Rightarrow> dict option \<Rightarrow> workflow_run list" where
  "history_after C own mem =
     (case mem of
        None \<Rightarrow> own
      | Some m \<Rightarrow>
          (case map_of m ''runs'' of
             None \<Rightarrow> own
           | Some v \<Rightarrow> (case load_runs C v of None \<Rightarrow> own | Some rs \<Rightarrow> rs)))"

definition load_failed :: "codec \<Rightarrow> dict option \<Rightarrow> bool" where
  "load_failed C mem =
     (case mem of
        None \<Rightarrow> False
      | Some m \<Rightarrow> (case map_of m ''runs'' of None \<Rightarrow> False | Some v \<Rightarrow> load_runs C v = None))"

text \<open>What \<^verbatim>\<open>WorkflowRun(**m)\<close> makes of one entry of a persisted history.\<close>

definition entry_run :: "codec \<Rightarrow> pyval \<Rightarrow> workflow_run option" where
  "entry_run C m = (case as_dict m of None \<Rightarrow> None | Some kw \<Rightarrow> WorkflowRun_init C kw)"

text \<open>A value nested in dictionaries along a path of keys.\<close>

fun nest :: "string list \<Rightarrow> pyval \<Rightarrow> pyval" where
  "nest [] v = v"
| "nest (k # ks) v = PDict [(k, nest ks v)]"

subsection \<open>Storage\<close>

text \<open>The calls the workflow's backend has received, and how many of them are upserts.\<close>

definition store_ops :: "workflow \<Rightarrow> store_op list" where
  "store_ops w = (case storage w of None \<Rightarrow> [] | Some st \<Rightarrow> ops st)"

definition upserts :: "workflow \<Rightarrow> nat" where
  "upserts w = length (filter is_upsert (store_ops w))"

text \<open>The record a key has in the workflow's backend.\<close>

definition stored :: "workflow \<Rightarrow> string \<Rightarrow> workflow_session option" where
  "stored w sid = (case storage w of None \<Rightarrow> None | Some st \<Rightarrow> map_of (table st) sid)"

subsection \<open>Streaming\<close>

text \<open>
  The string a fragment contributes to the accumulated content: the content of a
  \<^verbatim>\<open>RunResponse\<close> when that is a string, nothing otherwise.
\<close>

fun str_content :: "item \<Rightarrow> string" where
  "str_content (Resp r) = (case rr_content r of PStr s \<Rightarrow> s | _ \<Rightarrow> [])"
| "str_content (NotResp v) = []"

text \<open>A fragment as it reaches the consumer.\<close>

fun stamp_item :: "workflow \<Rightarrow> item \<Rightarrow> item" where
  "stamp_item w (Resp r) = Resp (stamp w r)"
| "stamp_item w (NotResp v) = NotResp v"

fun is_resp :: "item \<Rightarrow> bool" where
  "is_resp (Resp r) = True"
| "is_resp (NotResp v) = False"

definition yield_warnings :: "item list \<Rightarrow> warning list" where
  "yield_warnings xs = map (\<lambda>_. YieldedNotRunResponse) (filter (\<lambda>x. \<not> is_resp x) xs)"

text \<open>The workflow after the fragments \<open>xs\<close> went through the generator.\<close>

definition absorbed :: "string \<Rightarrow> item list \<Rightarrow> workflow \<Rightarrow> workflow" where
  "absorbed acc xs w =
     w\<lparr>run_response := (run_response w)\<lparr>rr_content := PStr (acc @ concat (map str_content xs))\<rparr>,
       warnings := warnings w @ yield_warnings xs\<rparr>"

text \<open>The code after the generator's loop: add the run to the memory, write it to the database.\<close>

definition finalize :: "codec \<Rightarrow> workflow \<Rightarrow> workflow" where
  "finalize C w =
     write_to_storage C (add_run \<lparr>input = run_input w, response = run_response w\<rparr> w)"

text \<open>The identity of a response: run, session and workflow.\<close>

definition ids :: "run_response \<Rightarrow> string option \<times> string option \<times> string option" where
  "ids r = (rr_run_id r, rr_session_id r, rr_workflow_id r)"

subsection \<open>A serialisation and a workflow for the examples\<close>

text \<open>
  The examples below evaluate the model on concrete inputs and need some instance of
  the serialisation parameter: a run is written as a dictionary with the keys
  \<^verbatim>\<open>input\<close> and \<^verbatim>\<open>response\<close>, and read back from a dictionary that has a dictionary
  under \<^verbatim>\<open>response\<close>.
\<close>

fun opt_str :: "string option \<Rightarrow> pyval" where
  "opt_str None = PNone"
| "opt_str (Some s) = PStr s"

fun str_opt :: "pyval \<Rightarrow> string option" where
  "str_opt (PStr s) = Some s"
| "str_opt _ = None"

definition response_dict :: "run_response \<Rightarrow> dict" where
  "response_dict r =
     [(''run_id'', opt_str (rr_run_id r)), (''session_id'', opt_str (rr_session_id r)),
      (''workflow_id'', opt_str (rr_workflow_id r)), (''content'', rr_content r)]"

definition run_dict :: "workflow_run \<Rightarrow> dict" where
  "run_dict r =
     [(''input'', (case input r of None \<Rightarrow> PNone | Some d \<Rightarrow> PDict d)),
      (''response'', PDict (response_dict (response r)))]"

definition example_init :: "dict \<Rightarrow> workflow_run option" where
  "example_init kw =
     (case map_of kw ''response'' of
        None \<Rightarrow> None
      | Some v \<Rightarrow>
          (case as_dict v of
             None \<Rightarrow> None
           | Some rd \<Rightarrow>
               Some \<lparr>input = (case map_of kw ''input'' of None \<Rightarrow> None | Some i \<Rightarrow> as_dict i),
                     response = \<lparr>rr_run_id = str_opt (dict_get rd ''run_id''),
                                  rr_session_id = str_opt (dict_get rd ''session_id''),
                                  rr_workflow_id = str_opt (dict_get rd ''workflow_id''),
                                  rr_content = dict_get rd ''content''\<rparr>\<rparr>))"

definition example_codec :: codec where
  "example_codec =
     \<lparr>to_dict = (\<lambda>rs. [(''runs'', PList (map (\<lambda>r. PDict (run_dict r)) rs))]),
      WorkflowRun_init = example_init\<rparr>"

text \<open>An empty backend, and a workflow as constructed for session \<^verbatim>\<open>s1\<close>.\<close>

definition empty_storage :: storage where
  "empty_storage = \<lparr>table = [], writable = True, ops = []\<rparr>"

definition example_workflow :: workflow where
  "example_workflow =
     \<lparr>name = PStr ''Demo'', workflow_id = Some ''w1'', workflow_data = None,
      user_id = None, user_data = None, session_id = Some ''s1'', session_name = PNone,
      session_data = None, session_state = Some [], memory_runs = [],
      storage = Some empty_storage, workflow_session = None, run_id = None,
      run_input = None,
      run_response = \<lparr>rr_run_id = None, rr_session_id = None, rr_workflow_id = None,
                        rr_content = PNone\<rparr>,
      warnings = []\<rparr>"

text \<open>A response with the given content and an identity of the user function's own.\<close>

definition fragment :: "pyval \<Rightarrow> run_response" where
  "fragment c = \<lparr>rr_run_id = Some ''mine'', rr_session_id = None, rr_workflow_id = None,
                  rr_content = c\<rparr>"

text \<open>A session record with the given dictionaries.\<close>

definition example_session ::
  "dict option \<Rightarrow> dict option \<Rightarrow> dict option \<Rightarrow> workflow_session" where
  "example_session mem wd sd =
     \<lparr>ws_session_id = Some ''s1'', ws_workflow_id = Some ''w1'', ws_user_id = None,
      ws_memory = mem, ws_workflow_data = wd, ws_user_data = None,
      ws_session_data = sd, ws_session_state = None\<rparr>"

text \<open>A persisted and a local dictionary that share keys down to the third level.\<close>

definition persisted_example :: dict where
  "persisted_example =
     [(''a'', PInt 1), (''keep'', PInt 2),
      (''cfg'', PDict [(''x'', PDict [(''y'', PDict [(''p'', PInt 1), (''q'', PInt 2)])])])]"

definition local_example :: dict where
  "local_example =
     [(''a'', PInt 5), (''new'', PInt 7),
      (''cfg'', PDict [(''x'', PDict [(''y'', PDict [(''p'', PInt 9), (''r'', PInt 3)])])])]"

text \<open>Two runs of an earlier process, as records.\<close>

definition run_one :: workflow_run where
  "run_one =
     \<lparr>input = Some [(''args'', PList [PStr ''x'']), (''kwargs'', PDict [])],
      response = \<lparr>rr_run_id = Some ''r1'', rr_session_id = Some ''s1'',
                   rr_workflow_id = Some ''w1'', rr_content = PStr ''first''\<rparr>\<rparr>"

definition run_two :: workflow_run where
  "run_two =
     \<lparr>input = Some [(''args'', PList []), (''kwargs'', PDict [(''n'', PInt 2)])],
      response = \<lparr>rr_run_id = Some ''r2'', rr_session_id = Some ''s1'',
                   rr_workflow_id = Some ''w1'', rr_content = PStr ''second''\<rparr>\<rparr>"

text \<open>A backend that holds one record, for session \<^verbatim>\<open>s1\<close>.\<close>

definition storage_with :: "workflow_session \<Rightarrow> storage" where
  "storage_with s = \<lparr>table = [(''s1'', s)], writable = True, ops = []\<rparr>"

text \<open>
  Three subclasses: a \<^verbatim>\<open>run\<close> that reports whether the backend holds a record for the
  workflow's session, one that yields three fragments, one that returns a single response.
\<close>

definition probe :: "workflow \<Rightarrow> pyval list \<Rightarrow> dict \<Rightarrow> run_result" where
  "probe w args kwargs =
     Response (fragment (case session_id w of
                           None \<Rightarrow> PNone
                         | Some sid \<Rightarrow> PBool (stored w sid \<noteq> None)))"

definition hello_items :: "item list" where
  "hello_items =
     [Resp (fragment (PStr ''Hello'')), Resp (fragment (PStr '' '')), Resp (fragment (PStr ''World''))]"

definition hello_run :: "workflow \<Rightarrow> pyval list \<Rightarrow> dict \<Rightarrow> run_result" where
  "hello_run w args kwargs = Iterator hello_items"

definition single_run :: "workflow \<Rightarrow> pyval list \<Rightarrow> dict \<Rightarrow> run_result" where
  "single_run w args kwargs = Response (fragment (PStr ''done''))"

text \<open>
  The workflow after the first three assignments of \<^verbatim>\<open>run_workflow\<close> (run id, run input,
  a new \<^verbatim>\<open>run_response\<close>), before the session is read.
\<close>

definition with_run :: "string \<Rightarrow> pyval list \<Rightarrow> dict \<Rightarrow> workflow \<Rightarrow> workflow" where
  "with_run rid args kwargs w =
     w\<lparr>run_id := Some rid,
       run_input := Some [(''args'', PList args), (''kwargs'', PDict kwargs)],
       run_response := \<lparr>rr_run_id = Some rid, rr_session_id = session_id w,
                         rr_workflow_id = workflow_id w, rr_content = PNone\<rparr>\<rparr>"

text \<open>A subclass whose \<^verbatim>\<open>run\<close> returns something that is neither.\<close>

definition unexpected_run :: "workflow \<Rightarrow> pyval list \<Rightarrow> dict \<Rightarrow> run_result" where
  "unexpected_run w args kwargs = Unexpected (PInt 0)"

section \<open>Properties of the merge\<close>

lemma map_of_merge_dictionaries:
  "distinct (map fst l) \<Longrightarrow>
   map_of (merge_dictionaries p l) k =
     (case map_of l k of
        None \<Rightarrow> map_of p k
      | Some lv \<Rightarrow>
          (case map_of p k of
             None \<Rightarrow> Some lv
           | Some pv \<Rightarrow>
               (case as_dict pv of
                  None \<Rightarrow> Some lv
                | Some pm \<Rightarrow>
                    (case as_dict lv of
                       None \<Rightarrow> Some lv
                     | Some lm \<Rightarrow> Some (PDict (merge_dictionaries pm lm))))))"
proof (induction l arbitrary: p)
  case Nil
  then show ?case by simp
next
  case (Cons a l)
  obtain k' v where a: "a = (k', v)" by (cases a)
  from Cons.prems a have d: "distinct (map fst l)" and nk: "map_of l k' = None"
    by (auto simp: map_of_eq_None_iff)
  show ?case
    using nk unfolding a
    by (simp add: Cons.IH[OF d] AList.update_conv' split: option.splits)
qed

lemma distinct_merge_dictionaries:
  "distinct (map fst p) \<Longrightarrow> distinct (map fst (merge_dictionaries p l))"
  by (induction l arbitrary: p) (auto simp: AList.distinct_update split: option.splits)

lemma keys_merge_dictionaries:
  "fst ` set (merge_dictionaries p l) = fst ` set p \<union> fst ` set l"
proof (induction l arbitrary: p)
  case Nil
  then show ?case by simp
next
  case (Cons a l)
  obtain k v where a: "a = (k, v)" by (cases a)
  show ?case unfolding a
    by (simp add: Cons.IH AList.dom_update split: option.splits)
qed

section \<open>Properties of loading\<close>

text \<open>Each block of \<^verbatim>\<open>from_workflow_session\<close> as one update of the workflow and the session.\<close>

lemma fws_ids_eq:
  "fws_ids (w, s) =
     (w\<lparr>session_id := adopt (session_id w) (ws_session_id s),
        workflow_id := adopt (workflow_id w) (ws_workflow_id s),
        user_id := adopt (user_id w) (ws_user_id s)\<rparr>, s)"
  by (simp add: fws_ids_def adopt_def Let_def split: option.splits)

lemma fws_workflow_data_eq:
  "fws_workflow_data (w, s) =
     (w\<lparr>name := adopt_name (name w) (ws_workflow_data s) ''name'',
        workflow_data := merge_opt (ws_workflow_data s) (workflow_data w)\<rparr>,
      s\<lparr>ws_workflow_data := map_option (\<lambda>pd. merged pd (workflow_data w)) (ws_workflow_data s)\<rparr>)"
  by (auto simp: fws_workflow_data_def adopt_name_def merged_def merge_opt_def Let_def split: option.splits)

lemma fws_user_data_eq:
  "fws_user_data (w, s) =
     (w\<lparr>user_data := merge_opt (ws_user_data s) (user_data w)\<rparr>,
      s\<lparr>ws_user_data := map_option (\<lambda>pd. merged pd (user_data w)) (ws_user_data s)\<rparr>)"
  by (simp add: fws_user_data_def merged_def merge_opt_def Let_def split: option.splits)

lemma fws_session_data_eq:
  "fws_session_data (w, s) =
     (w\<lparr>session_name := adopt_name (session_name w) (ws_session_data s) ''session_name'',
        session_data := merge_opt (ws_session_data s) (session_data w)\<rparr>,
      s\<lparr>ws_session_data := map_option (\<lambda>pd. merged pd (session_data w)) (ws_session_data s)\<rparr>)"
  by (auto simp: fws_session_data_def adopt_name_def merged_def merge_opt_def Let_def split: option.splits)

lemma fws_session_state_eq:
  "fws_session_state (w, s) =
     (w\<lparr>session_state := merge_opt (ws_session_state s) (session_state w)\<rparr>,
      s\<lparr>ws_session_state := map_option (\<lambda>pd. merged pd (session_state w)) (ws_session_state s)\<rparr>)"
  by (simp add: fws_session_state_def merged_def merge_opt_def Let_def split: option.splits)

lemma fws_memory_eq:
  "fws_memory C (w, s) =
     (w\<lparr>memory_runs := history_after C (memory_runs w) (ws_memory s),
        warnings := (if load_failed C (ws_memory s)
                     then warnings w @ [FailedToLoadWorkflowMemory] else warnings w)\<rparr>, s)"
  by (simp add: fws_memory_def history_after_def load_failed_def split: option.splits)

lemma from_workflow_session_eq:
  "from_workflow_session C w s =
     (w\<lparr>session_id := adopt (session_id w) (ws_session_id s),
        workflow_id := adopt (workflow_id w) (ws_workflow_id s),
        user_id := adopt (user_id w) (ws_user_id s),
        name := adopt_name (name w) (ws_workflow_data s) ''name'',
        workflow_data := merge_opt (ws_workflow_data s) (workflow_data w),
        user_data := merge_opt (ws_user_data s) (user_data w),
        session_name := adopt_name (session_name w) (ws_session_data s) ''session_name'',
        session_data := merge_opt (ws_session_data s) (session_data w),
        session_state := merge_opt (ws_session_state s) (session_state w),
        memory_runs := history_after C (memory_runs w) (ws_memory s),
        warnings := (if load_failed C (ws_memory s)
                     then warnings w @ [FailedToLoadWorkflowMemory] else warnings w)\<rparr>,
      s\<lparr>ws_workflow_data := map_option (\<lambda>pd. merged pd (workflow_data w)) (ws_workflow_data s),
        ws_user_data := map_option (\<lambda>pd. merged pd (user_data w)) (ws_user_data s),
        ws_session_data := map_option (\<lambda>pd. merged pd (session_data w)) (ws_session_data s),
        ws_session_state := map_option (\<lambda>pd. merged pd (session_state w)) (ws_session_state s)\<rparr>)"
  by (simp add: from_workflow_session_def fws_ids_eq fws_workflow_data_eq fws_user_data_eq
      fws_session_data_eq fws_session_state_eq fws_memory_eq)

section \<open>Properties of saving\<close>

lemma get_workflow_data_frame:
  "\<exists>d. snd (get_workflow_data w) = w\<lparr>workflow_data := d\<rparr>"
proof (cases "name w \<noteq> PNone \<and> (case workflow_data w of None \<Rightarrow> False | Some d \<Rightarrow> d \<noteq> [])")
  case True
  then show ?thesis by (auto simp: get_workflow_data_def Let_def)
next
  case False
  then have "snd (get_workflow_data w) = w\<lparr>workflow_data := workflow_data w\<rparr>"
    by (auto simp: get_workflow_data_def Let_def)
  then show ?thesis by blast
qed

lemma get_session_data_frame:
  "\<exists>d. snd (get_session_data w) = w\<lparr>session_data := d\<rparr>"
proof (cases "session_name w \<noteq> PNone \<and> (case session_data w of None \<Rightarrow> False | Some d \<Rightarrow> d \<noteq> [])")
  case True
  then show ?thesis by (auto simp: get_session_data_def Let_def)
next
  case False
  then have "snd (get_session_data w) = w\<lparr>session_data := session_data w\<rparr>"
    by (auto simp: get_session_data_def Let_def)
  then show ?thesis by blast
qed

lemma get_workflow_session_frame:
  "\<exists>d e. snd (get_workflow_session C w) = w\<lparr>workflow_data := d, session_data := e\<rparr>"
proof -
  obtain d where d: "snd (get_workflow_data w) = w\<lparr>workflow_data := d\<rparr>"
    using get_workflow_data_frame by blast
  obtain e where e: "snd (get_session_data (w\<lparr>workflow_data := d\<rparr>)) = w\<lparr>workflow_data := d, session_data := e\<rparr>"
    using get_session_data_frame[of "w\<lparr>workflow_data := d\<rparr>"] by auto
  have "snd (get_workflow_session C w) = w\<lparr>workflow_data := d, session_data := e\<rparr>"
    using d e by (simp add: get_workflow_session_def Let_def case_prod_beta)
  then show ?thesis by blast
qed

lemma get_workflow_session_memory:
  "ws_memory (fst (get_workflow_session C w)) = Some (to_dict C (memory_runs w))"
  by (simp add: get_workflow_session_def Let_def case_prod_beta)

lemma write_to_storage_frame:
  "\<exists>d e st c. write_to_storage C w =
     w\<lparr>workflow_data := d, session_data := e, storage := st, workflow_session := c\<rparr>"
proof (cases "storage w")
  case None
  then have "write_to_storage C w =
     w\<lparr>workflow_data := workflow_data w, session_data := session_data w, storage := storage w,
       workflow_session := workflow_session w\<rparr>"
    by (simp add: write_to_storage_def)
  then show ?thesis by blast
next
  case (Some st)
  obtain d e where "snd (get_workflow_session C w) = w\<lparr>workflow_data := d, session_data := e\<rparr>"
    using get_workflow_session_frame by blast
  then have "write_to_storage C w =
     w\<lparr>workflow_data := d, session_data := e,
       storage := Some (snd (storage_upsert st (fst (get_workflow_session C w)))),
       workflow_session := fst (storage_upsert st (fst (get_workflow_session C w)))\<rparr>"
    using Some by (simp add: write_to_storage_def Let_def case_prod_beta)
  then show ?thesis by blast
qed

lemma storage_upsert_ops: "ops (snd (storage_upsert st s)) = ops st @ [Upsert s]"
  by (simp add: storage_upsert_def Let_def split: option.splits)

lemma write_to_storage_ops:
  "store_ops (write_to_storage C w) =
     (if storage w = None then [] else store_ops w @ [Upsert (fst (get_workflow_session C w))])"
  by (auto simp: write_to_storage_def store_ops_def storage_upsert_ops Let_def case_prod_beta)

section \<open>Properties of the generator\<close>

lemma stamp_absorbed [simp]: "stamp (absorbed acc xs w) = stamp w"
  by (simp add: absorbed_def stamp_def fun_eq_iff)

lemma stamp_item_absorbed [simp]: "stamp_item (absorbed acc xs w) x = stamp_item w x"
  by (cases x) simp_all

lemma absorbed_Nil:
  "rr_content (run_response w) = PStr acc \<Longrightarrow> absorbed acc [] w = w"
  by (simp add: absorbed_def yield_warnings_def)

lemma absorbed_content [simp]:
  "rr_content (run_response (absorbed acc xs w)) = PStr (acc @ concat (map str_content xs))"
  by (simp add: absorbed_def)

lemma absorbed_Cons:
  "absorbed (acc @ str_content x) xs (absorbed acc [x] w) = absorbed acc (x # xs) w"
  by (simp add: absorbed_def yield_warnings_def)

lemma rr_content_stamp [simp]: "rr_content (stamp w r) = rr_content r"
  by (simp add: stamp_def)

lemma gen_next_item:
  assumes "rr_content (run_response w) = PStr acc"
  shows "gen_next C (Running (x # rest)) w = Inr (Some (stamp_item w x), Running rest, absorbed acc [x] w)"
proof (cases x)
  case (Resp r)
  show ?thesis
  proof (cases "\<exists>s. rr_content r = PStr s")
    case True
    then obtain s where "rr_content r = PStr s" by blast
    then show ?thesis using assms Resp
      by (simp add: absorbed_def yield_warnings_def)
  next
    case False
    then have "absorbed acc [x] w = w" using assms Resp
      by (cases "rr_content r") (simp_all add: absorbed_def yield_warnings_def)
    moreover have "gen_next C (Running (x # rest)) w = Inr (Some (stamp_item w x), Running rest, w)"
      using False Resp by (cases "rr_content r") simp_all
    ultimately show ?thesis by simp
  qed
next
  case (NotResp v)
  then show ?thesis using assms
    by (simp add: absorbed_def yield_warnings_def)
qed

lemma pulls_running:
  "rr_content (run_response w) = PStr acc \<Longrightarrow> k \<le> length items \<Longrightarrow>
   pulls C k (Running items) w =
     Inr (map (stamp_item w) (take k items), Running (drop k items), absorbed acc (take k items) w)"
proof (induction k arbitrary: items w acc)
  case 0
  then show ?case by (simp add: absorbed_Nil)
next
  case (Suc k)
  then obtain x rest where items: "items = x # rest" by (cases items) auto
  have c: "rr_content (run_response (absorbed acc [x] w)) = PStr (acc @ str_content x)"
    by simp
  have k: "k \<le> length rest" using Suc.prems items by simp
  show ?case
    unfolding items
    by (simp add: gen_next_item[OF Suc.prems(1)] Suc.IH[OF c k] absorbed_Cons)
qed

lemma pulls_exhausted: "pulls C k Exhausted w = Inr ([], Exhausted, w)"
  by (induction k) simp_all

lemma pulls_final: "pulls C (Suc j) (Running []) w = Inr ([], Exhausted, finalize C w)"
  by (simp add: pulls_exhausted finalize_def Let_def)

lemma pulls_add:
  "pulls C (a + b) g w =
     (case pulls C a g w of
        Inl e \<Rightarrow> Inl e
      | Inr (xs, g', w') \<Rightarrow>
          (case pulls C b g' w' of
             Inl e \<Rightarrow> Inl e
           | Inr (ys, g'', w'') \<Rightarrow> Inr (xs @ ys, g'', w'')))"
proof (induction a arbitrary: g w)
  case 0
  show ?case by (cases "pulls C b g w") auto
next
  case (Suc a)
  show ?case
  proof (cases "gen_next C g w")
    case (Inl e)
    then show ?thesis by simp
  next
    case (Inr t)
    obtain y g1 w1 where t: "t = (y, g1, w1)" by (cases t)
    show ?thesis
    proof (cases "pulls C a g1 w1")
      case (Inl e)
      then show ?thesis using Inr t Suc.IH[of g1 w1] by (cases y) simp_all
    next
      case (Inr u)
      note Inr' = Inr
      obtain xs g2 w2 where u: "u = (xs, g2, w2)" by (cases u)
      show ?thesis
      proof (cases "pulls C b g2 w2")
        case (Inl e)
        then show ?thesis using \<open>gen_next C g w = Inr t\<close> t Inr' u Suc.IH[of g1 w1]
          by (cases y) simp_all
      next
        case (Inr v)
        obtain ys g3 w3 where v: "v = (ys, g3, w3)" by (cases v)
        show ?thesis using \<open>gen_next C g w = Inr t\<close> t Inr' u Inr v Suc.IH[of g1 w1]
          by (cases y) simp_all
      qed
    qed
  qed
qed

lemma pulls_drained:
  assumes "rr_content (run_response w) = PStr acc" and "length items < k"
  shows "pulls C k (Running items) w =
     Inr (map (stamp_item w) items, Exhausted, finalize C (absorbed acc items w))"
proof -
  obtain j where k: "k = length items + Suc j"
    using less_imp_Suc_add[OF assms(2)] by auto
  show ?thesis
    unfolding k pulls_add
    by (simp add: pulls_running[OF assms(1)] pulls_final del: pulls.simps)
qed

section \<open>The merge along a path, and the fields after a load\<close>

lemma merge_nested:
  "merge_dictionaries [(k, nest ks (PDict P))] [(k, nest ks (PDict L))] =
     [(k, nest ks (PDict (merge_dictionaries P L)))]"
  by (induction ks arbitrary: k) simp_all

lemma fws_maps:
  "workflow_data (fst (from_workflow_session C w s)) = merge_opt (ws_workflow_data s) (workflow_data w)"
  "user_data (fst (from_workflow_session C w s)) = merge_opt (ws_user_data s) (user_data w)"
  "session_data (fst (from_workflow_session C w s)) = merge_opt (ws_session_data s) (session_data w)"
  "session_state (fst (from_workflow_session C w s)) = merge_opt (ws_session_state s) (session_state w)"
  "ws_workflow_data (snd (from_workflow_session C w s)) =
     map_option (\<lambda>pd. merged pd (workflow_data w)) (ws_workflow_data s)"
  "ws_user_data (snd (from_workflow_session C w s)) =
     map_option (\<lambda>pd. merged pd (user_data w)) (ws_user_data s)"
  "ws_session_data (snd (from_workflow_session C w s)) =
     map_option (\<lambda>pd. merged pd (session_data w)) (ws_session_data s)"
  "ws_session_state (snd (from_workflow_session C w s)) =
     map_option (\<lambda>pd. merged pd (session_state w)) (ws_session_state s)"
  by (simp_all add: from_workflow_session_eq)

lemma fws_names:
  "name (fst (from_workflow_session C w s)) = adopt_name (name w) (ws_workflow_data s) ''name''"
  "session_name (fst (from_workflow_session C w s)) =
     adopt_name (session_name w) (ws_session_data s) ''session_name''"
  by (simp_all add: from_workflow_session_eq)

lemma fws_history:
  "memory_runs (fst (from_workflow_session C w s)) = history_after C (memory_runs w) (ws_memory s)"
  "warnings (fst (from_workflow_session C w s)) =
     (if load_failed C (ws_memory s) then warnings w @ [FailedToLoadWorkflowMemory] else warnings w)"
  by (simp_all add: from_workflow_session_eq)

lemma init_name_set: "name (init_name cls w) \<noteq> PNone"
  by (cases "name w") (simp_all add: init_name_def)

lemma build_runs_Some:
  "map (entry_run C) ms = map Some rs \<Longrightarrow> build_runs C ms = Some rs"
proof (induction ms arbitrary: rs)
  case Nil
  then show ?case by simp
next
  case (Cons m ms)
  then obtain r rs' where rs: "rs = r # rs'" and m: "entry_run C m = Some r"
    and rest: "map (entry_run C) ms = map Some rs'"
    by (cases rs) auto
  from m obtain kw where "as_dict m = Some kw" and "WorkflowRun_init C kw = Some r"
    by (auto simp: entry_run_def split: option.splits)
  then show ?case
    using Cons.IH[OF rest] rs by simp
qed

lemma build_runs_None:
  "m \<in> set ms \<Longrightarrow> entry_run C m = None \<Longrightarrow> build_runs C ms = None"
  by (induction ms) (auto simp: entry_run_def split: option.splits)

lemma example_roundtrip:
  "entry_run example_codec (PDict (run_dict run_one)) = Some run_one"
  "entry_run example_codec (PDict (run_dict run_two)) = Some run_two"
  by (simp_all add: entry_run_def example_codec_def example_init_def run_dict_def
      response_dict_def dict_get_def run_one_def run_two_def)

section \<open>Properties of renaming\<close>

lemma rename_session_absent:
  assumes "storage w = Some st" and "map_of (table st) sid = None"
  shows "rename_session sid nm w =
     (Inl (Exception (''WorkflowSession not found: '' @ sid)),
      w\<lparr>storage := Some (st\<lparr>ops := ops st @ [Read sid]\<rparr>)\<rparr>)"
  using assms by (simp add: rename_session_def storage_read_def)

lemma rename_session_no_data:
  assumes "storage w = Some st" and "map_of (table st) sid = Some s" and "ws_session_data s = None"
  shows "rename_session sid nm w =
     (Inl TypeError, w\<lparr>storage := Some (st\<lparr>ops := ops st @ [Read sid]\<rparr>)\<rparr>)"
  using assms by (simp add: rename_session_def storage_read_def)

lemma rename_session_present:
  assumes "storage w = Some st" and "map_of (table st) sid = Some s" and "ws_session_data s = Some d"
  shows "rename_session sid nm w =
     (Inr (),
      w\<lparr>storage := Some (snd (storage_upsert (st\<lparr>ops := ops st @ [Read sid]\<rparr>)
          (s\<lparr>ws_session_data := Some (AList.update ''session_name'' (PStr nm) d)\<rparr>)))\<rparr>)"
  using assms by (simp add: rename_session_def storage_read_def case_prod_beta)

section \<open>Properties of reading and of the start of a run\<close>

lemma read_from_storage_keeps:
  "session_id (read_from_storage C w) = session_id w"
  "run_id (read_from_storage C w) = run_id w"
  "run_input (read_from_storage C w) = run_input w"
  "run_response (read_from_storage C w) = run_response w"
  by (simp_all add: read_from_storage_def storage_read_def from_workflow_session_eq adopt_def
      Let_def case_prod_beta split: option.splits)

lemma read_from_storage_workflow_id:
  "workflow_id w \<noteq> None \<Longrightarrow> workflow_id (read_from_storage C w) = workflow_id w"
  by (auto simp: read_from_storage_def storage_read_def from_workflow_session_eq adopt_def
      Let_def case_prod_beta split: option.splits)

lemma read_from_storage_storage:
  "storage (read_from_storage C w) =
     (case storage w of
        None \<Rightarrow> None
      | Some st \<Rightarrow>
          (case session_id w of
             None \<Rightarrow> Some st
           | Some sid \<Rightarrow> Some (st\<lparr>ops := ops st @ [Read sid]\<rparr>)))"
  by (simp add: read_from_storage_def storage_read_def from_workflow_session_eq
      Let_def case_prod_beta split: option.splits)

lemma read_from_storage_found:
  assumes "storage w = Some st" and "session_id w = Some sid"
    and "map_of (table st) sid = Some s"
  shows "read_from_storage C w =
     (fst (from_workflow_session C
        (w\<lparr>storage := Some (st\<lparr>ops := ops st @ [Read sid]\<rparr>), workflow_session := Some s\<rparr>) s))
     \<lparr>workflow_session := Some (snd (from_workflow_session C
        (w\<lparr>storage := Some (st\<lparr>ops := ops st @ [Read sid]\<rparr>), workflow_session := Some s\<rparr>) s))\<rparr>"
  using assms by (simp add: read_from_storage_def storage_read_def Let_def case_prod_beta)

lemma read_from_storage_absent:
  assumes "storage w = Some st" and "session_id w = Some sid"
    and "map_of (table st) sid = None"
  shows "read_from_storage C w =
     w\<lparr>storage := Some (st\<lparr>ops := ops st @ [Read sid]\<rparr>), workflow_session := None\<rparr>"
  using assms by (simp add: read_from_storage_def storage_read_def Let_def)

lemma read_from_storage_cache:
  assumes "storage w = Some st" and "session_id w = Some sid"
  shows "workflow_session (read_from_storage C w) = None \<longleftrightarrow> map_of (table st) sid = None"
proof (cases "map_of (table st) sid")
  case None
  then show ?thesis by (simp add: read_from_storage_absent[OF assms])
next
  case (Some s)
  then show ?thesis by (simp add: read_from_storage_found[OF assms])
qed

lemma begin_keeps:
  "run_id (run_workflow_begin C rid args kwargs w) = Some rid"
  "session_id (run_workflow_begin C rid args kwargs w) = session_id w"
  "run_input (run_workflow_begin C rid args kwargs w) =
     Some [(''args'', PList args), (''kwargs'', PDict kwargs)]"
  "run_response (run_workflow_begin C rid args kwargs w) =
     \<lparr>rr_run_id = Some rid, rr_session_id = session_id w, rr_workflow_id = workflow_id w,
      rr_content = PNone\<rparr>"
  by (simp_all add: run_workflow_begin_def read_from_storage_keeps)

lemma begin_workflow_id:
  "workflow_id w \<noteq> None \<Longrightarrow> workflow_id (run_workflow_begin C rid args kwargs w) = workflow_id w"
  by (simp add: run_workflow_begin_def read_from_storage_workflow_id)

lemma begin_storage:
  "storage (run_workflow_begin C rid args kwargs w) =
     (case storage w of
        None \<Rightarrow> None
      | Some st \<Rightarrow>
          (case session_id w of
             None \<Rightarrow> Some st
           | Some sid \<Rightarrow> Some (st\<lparr>ops := ops st @ [Read sid]\<rparr>)))"
  by (simp add: run_workflow_begin_def read_from_storage_storage split: option.splits)

section \<open>Properties of the end of a run\<close>

lemma finalize_frame:
  "\<exists>d e st c. finalize C w =
     w\<lparr>memory_runs := memory_runs w @ [\<lparr>input = run_input w, response = run_response w\<rparr>],
       workflow_data := d, session_data := e, storage := st, workflow_session := c\<rparr>"
proof -
  let ?v = "add_run \<lparr>input = run_input w, response = run_response w\<rparr> w"
  obtain d e st c where
    "write_to_storage C ?v = ?v\<lparr>workflow_data := d, session_data := e, storage := st,
       workflow_session := c\<rparr>"
    using write_to_storage_frame[of C ?v] by blast
  then have "finalize C w =
     w\<lparr>memory_runs := memory_runs w @ [\<lparr>input = run_input w, response = run_response w\<rparr>],
       workflow_data := d, session_data := e, storage := st, workflow_session := c\<rparr>"
    by (simp add: finalize_def add_run_def)
  then show ?thesis by blast
qed

lemma finalize_keeps:
  "memory_runs (finalize C w) = memory_runs w @ [\<lparr>input = run_input w, response = run_response w\<rparr>]"
  "run_response (finalize C w) = run_response w"
  using finalize_frame[of C w] by auto

lemma finalize_ops:
  "storage w \<noteq> None \<Longrightarrow>
   store_ops (finalize C w) = store_ops w @
     [Upsert (fst (get_workflow_session C (add_run \<lparr>input = run_input w, response = run_response w\<rparr> w)))]"
  by (simp add: finalize_def write_to_storage_ops) (simp add: add_run_def store_ops_def)

lemma finalize_session_memory:
  "ws_memory (fst (get_workflow_session C (add_run \<lparr>input = run_input w, response = run_response w\<rparr> w)))
     = Some (to_dict C (memory_runs (finalize C w)))"
  by (simp add: get_workflow_session_memory finalize_keeps add_run_def)

lemma absorbed_keeps:
  "memory_runs (absorbed acc xs w) = memory_runs w"
  "storage (absorbed acc xs w) = storage w"
  "run_input (absorbed acc xs w) = run_input w"
  "store_ops (absorbed acc xs w) = store_ops w"
  "ids (run_response (absorbed acc xs w)) = ids (run_response w)"
  by (simp_all add: absorbed_def store_ops_def ids_def)

section \<open>Properties of \<^verbatim>\<open>run_workflow\<close>\<close>

lemma run_workflow_iterator:
  assumes "subclass_run (run_workflow_begin C rid args kwargs w) args kwargs = Iterator items"
  shows "run_workflow C subclass_run rid args kwargs w =
     (Generator (Running items),
      (run_workflow_begin C rid args kwargs w)
        \<lparr>run_response := \<lparr>rr_run_id = Some rid, rr_session_id = session_id w,
                          rr_workflow_id = workflow_id w, rr_content = PStr []\<rparr>\<rparr>)"
  using assms by (simp add: run_workflow_def Let_def begin_keeps)

lemma stamped_ids:
  "Resp r \<in> set (map (stamp_item w) xs) \<Longrightarrow> ids r = (run_id w, session_id w, workflow_id w)"
proof (induction xs)
  case Nil
  then show ?case by simp
next
  case (Cons x xs)
  then show ?case
    by (cases x) (auto simp: stamp_def ids_def)
qed

lemma pulls_any:
  assumes "rr_content (run_response w) = PStr acc"
  shows "\<exists>g' w'. pulls C k (Running items) w = Inr (map (stamp_item w) (take k items), g', w')"
proof (cases "k \<le> length items")
  case True
  then show ?thesis by (simp add: pulls_running[OF assms])
next
  case False
  then have "length items < k" by simp
  then show ?thesis by (simp add: pulls_drained[OF assms])
qed

lemma rw_response_eq:
  assumes "subclass_run (run_workflow_begin C rid args kwargs w) args kwargs = Response result"
  shows "run_workflow C subclass_run rid args kwargs w =
     (Returned (stamp (run_workflow_begin C rid args kwargs w) result),
      finalize C
        (case rr_content result of
           PStr s \<Rightarrow> (run_workflow_begin C rid args kwargs w)
              \<lparr>run_response := (run_response (run_workflow_begin C rid args kwargs w))\<lparr>rr_content := PStr s\<rparr>\<rparr>
         | _ \<Rightarrow> run_workflow_begin C rid args kwargs w))"
  unfolding run_workflow_def Let_def finalize_def assms
  by (simp only: run_result.case rr_content_stamp)

lemma begin_response_fix:
  "(run_workflow_begin C rid args kwargs w)
     \<lparr>run_response := \<lparr>rr_run_id = Some rid, rr_session_id = session_id w,
                       rr_workflow_id = workflow_id w, rr_content = PNone\<rparr>\<rparr>
   = run_workflow_begin C rid args kwargs w"
proof -
  let ?wb = "run_workflow_begin C rid args kwargs w"
  have "?wb\<lparr>run_response := run_response ?wb\<rparr> = ?wb"
    by simp
  then show ?thesis
    by (simp only: begin_keeps(4))
qed

lemma run_workflow_response:
  assumes "subclass_run (run_workflow_begin C rid args kwargs w) args kwargs = Response result"
  shows "\<exists>c. run_workflow C subclass_run rid args kwargs w =
     (Returned (stamp (run_workflow_begin C rid args kwargs w) result),
      finalize C ((run_workflow_begin C rid args kwargs w)
        \<lparr>run_response := \<lparr>rr_run_id = Some rid, rr_session_id = session_id w,
                          rr_workflow_id = workflow_id w, rr_content = c\<rparr>\<rparr>))"
proof -
  let ?wb = "run_workflow_begin C rid args kwargs w"
  let ?lit = "\<lambda>c. \<lparr>rr_run_id = Some rid, rr_session_id = session_id w,
                          rr_workflow_id = workflow_id w, rr_content = c\<rparr>"
  define X where "X = (case rr_content result of
           PStr s \<Rightarrow> ?wb\<lparr>run_response := (run_response ?wb)\<lparr>rr_content := PStr s\<rparr>\<rparr>
         | _ \<Rightarrow> ?wb)"
  have r: "run_workflow C subclass_run rid args kwargs w =
      (Returned (stamp ?wb result), finalize C X)"
    unfolding X_def using assms by (rule rw_response_eq)
  have "\<exists>c. X = ?wb\<lparr>run_response := ?lit c\<rparr>"
  proof (cases "\<exists>s. rr_content result = PStr s")
    case True
    then obtain s where s: "rr_content result = PStr s" by blast
    have "X = ?wb\<lparr>run_response := ?lit (PStr s)\<rparr>"
      by (simp add: X_def s begin_keeps(4))
    then show ?thesis by blast
  next
    case False
    then have "X = ?wb"
      by (cases "rr_content result") (simp_all add: X_def)
    then have "X = ?wb\<lparr>run_response := ?lit PNone\<rparr>"
      by (rule trans[OF _ begin_response_fix[symmetric]])
    then show ?thesis by blast
  qed
  then obtain c where "X = ?wb\<lparr>run_response := ?lit c\<rparr>"
    by blast
  with r have "run_workflow C subclass_run rid args kwargs w =
      (Returned (stamp ?wb result), finalize C (?wb\<lparr>run_response := ?lit c\<rparr>))"
    by (simp only:)
  then show ?thesis by blast
qed

lemma example_begin_storage:
  "storage (run_workflow_begin example_codec ''r1'' [] [] example_workflow) =
     Some (empty_storage\<lparr>ops := [Read ''s1'']\<rparr>)"
  by (simp add: begin_storage example_workflow_def empty_storage_def)

section \<open>The session at the start and at the end of a run\<close>

lemma begin_with_run:
  "run_workflow_begin C rid args kwargs w = read_from_storage C (with_run rid args kwargs w)"
  by (simp add: run_workflow_begin_def with_run_def)

lemma with_run_keeps:
  "storage (with_run rid args kwargs w) = storage w"
  "session_id (with_run rid args kwargs w) = session_id w"
  "workflow_data (with_run rid args kwargs w) = workflow_data w"
  "user_data (with_run rid args kwargs w) = user_data w"
  "session_data (with_run rid args kwargs w) = session_data w"
  "session_state (with_run rid args kwargs w) = session_state w"
  "memory_runs (with_run rid args kwargs w) = memory_runs w"
  by (simp_all add: with_run_def)

lemma get_workflow_session_id:
  "ws_session_id (fst (get_workflow_session C w)) = session_id w"
proof -
  obtain d e where "snd (get_workflow_session C w) = w\<lparr>workflow_data := d, session_data := e\<rparr>"
    using get_workflow_session_frame by blast
  then have "session_id (snd (get_workflow_session C w)) = session_id w"
    by simp
  then show ?thesis
    by (simp add: get_workflow_session_def Let_def case_prod_beta)
qed

lemma finalize_store:
  assumes "storage x = Some st" and "session_id x = Some sid"
  shows "\<exists>session. store_ops (finalize C x) = ops st @ [Upsert session]
      \<and> ws_session_id session = Some sid
      \<and> (writable st \<longrightarrow> stored (finalize C x) sid = Some session)"
proof -
  let ?v = "add_run \<lparr>input = run_input x, response = run_response x\<rparr> x"
  let ?session = "fst (get_workflow_session C ?v)"
  have sv: "storage ?v = Some st" and iv: "session_id ?v = Some sid"
    using assms by (simp_all add: add_run_def)
  have i: "ws_session_id ?session = Some sid"
    using iv by (simp add: get_workflow_session_id)
  have s: "storage (finalize C x) = Some (snd (storage_upsert st ?session))"
    using sv by (simp add: finalize_def write_to_storage_def Let_def case_prod_beta)
  have 1: "store_ops (finalize C x) = ops st @ [Upsert ?session]"
    by (simp add: store_ops_def s storage_upsert_ops)
  have 2: "writable st \<longrightarrow> stored (finalize C x) sid = Some ?session"
    using i by (simp add: stored_def s storage_upsert_def Let_def AList.update_conv')
  from 1 i 2 show ?thesis by blast
qed

lemma begin_found:
  assumes "storage w = Some st" and "session_id w = Some sid"
    and "map_of (table st) sid = Some s"
  shows "run_workflow_begin C rid args kwargs w =
     (fst (from_workflow_session C
        ((with_run rid args kwargs w)\<lparr>storage := Some (st\<lparr>ops := ops st @ [Read sid]\<rparr>),
                                      workflow_session := Some s\<rparr>) s))
     \<lparr>workflow_session := Some (snd (from_workflow_session C
        ((with_run rid args kwargs w)\<lparr>storage := Some (st\<lparr>ops := ops st @ [Read sid]\<rparr>),
                                      workflow_session := Some s\<rparr>) s))\<rparr>"
  unfolding begin_with_run
  by (rule read_from_storage_found) (simp_all add: with_run_keeps assms)

lemma begin_absent:
  assumes "storage w = Some st" and "session_id w = Some sid"
    and "map_of (table st) sid = None"
  shows "run_workflow_begin C rid args kwargs w =
     (with_run rid args kwargs w)\<lparr>storage := Some (st\<lparr>ops := ops st @ [Read sid]\<rparr>),
                                  workflow_session := None\<rparr>"
  unfolding begin_with_run
  by (rule read_from_storage_absent) (simp_all add: with_run_keeps assms)

lemma begin_merged:
  assumes "storage w = Some st" and "session_id w = Some sid"
    and "map_of (table st) sid = Some s"
  shows "workflow_data (run_workflow_begin C rid args kwargs w) =
           merge_opt (ws_workflow_data s) (workflow_data w)"
    and "user_data (run_workflow_begin C rid args kwargs w) =
           merge_opt (ws_user_data s) (user_data w)"
    and "session_data (run_workflow_begin C rid args kwargs w) =
           merge_opt (ws_session_data s) (session_data w)"
    and "session_state (run_workflow_begin C rid args kwargs w) =
           merge_opt (ws_session_state s) (session_state w)"
    and "memory_runs (run_workflow_begin C rid args kwargs w) =
           history_after C (memory_runs w) (ws_memory s)"
  by (simp_all add: begin_found[OF assms] fws_maps fws_history with_run_keeps)

lemma run_workflow_unexpected:
  assumes "subclass_run (run_workflow_begin C rid args kwargs w) args kwargs = Unexpected v"
  shows "run_workflow C subclass_run rid args kwargs w =
     (ReturnedNone, (run_workflow_begin C rid args kwargs w)
        \<lparr>warnings := warnings (run_workflow_begin C rid args kwargs w) @ [ReturnedNotRunResponse]\<rparr>)"
  unfolding run_workflow_def Let_def assms
  by (simp only: run_result.case)

section \<open>The claims\<close>

subsection \<open>C4: precedence of the merge\<close>

text \<open>
  Claim C4.  Merging the workflow's local map \<open>L\<close> into the persisted map \<open>P\<close>: a key
  that only \<open>P\<close> has keeps its value; a key that only \<open>L\<close> has is inserted with its
  value; for a key of both with non-map values the local value wins; for a key of both
  whose values are maps the result is the merge of the two, and so on to any depth (the
  merge of two maps nested along a path of keys of any length is the merge of the
  innermost maps, nested along that path).  \<^verbatim>\<open>from_workflow_session\<close> applies the merge to
  each of the four maps: the merged persisted map is left in the session and becomes the
  workflow's map.  \<open>L\<close> is a Python dictionary, so its keys are distinct.
\<close>

theorem merge_precedence:
  assumes "distinct (map fst L)"
  shows "(map_of L k = None \<longrightarrow> map_of (merge_dictionaries P L) k = map_of P k)
    \<and> (map_of P k = None \<longrightarrow> map_of (merge_dictionaries P L) k = map_of L k)
    \<and> (\<forall>pv lv. map_of P k = Some pv \<and> map_of L k = Some lv \<and> as_dict pv = None \<and> as_dict lv = None
          \<longrightarrow> map_of (merge_dictionaries P L) k = Some lv)
    \<and> (\<forall>pm lm. map_of P k = Some (PDict pm) \<and> map_of L k = Some (PDict lm)
          \<longrightarrow> map_of (merge_dictionaries P L) k = Some (PDict (merge_dictionaries pm lm)))
    \<and> merge_dictionaries [(k, nest ks (PDict P))] [(k, nest ks (PDict L))] =
          [(k, nest ks (PDict (merge_dictionaries P L)))]
    \<and> (ws_workflow_data s = Some P \<and> workflow_data w = Some L \<longrightarrow>
          workflow_data (fst (from_workflow_session C w s)) = Some (merge_dictionaries P L)
        \<and> ws_workflow_data (snd (from_workflow_session C w s)) = Some (merge_dictionaries P L))
    \<and> (ws_user_data s = Some P \<and> user_data w = Some L \<longrightarrow>
          user_data (fst (from_workflow_session C w s)) = Some (merge_dictionaries P L)
        \<and> ws_user_data (snd (from_workflow_session C w s)) = Some (merge_dictionaries P L))
    \<and> (ws_session_data s = Some P \<and> session_data w = Some L \<longrightarrow>
          session_data (fst (from_workflow_session C w s)) = Some (merge_dictionaries P L)
        \<and> ws_session_data (snd (from_workflow_session C w s)) = Some (merge_dictionaries P L))
    \<and> (ws_session_state s = Some P \<and> session_state w = Some L \<longrightarrow>
          session_state (fst (from_workflow_session C w s)) = Some (merge_dictionaries P L)
        \<and> ws_session_state (snd (from_workflow_session C w s)) = Some (merge_dictionaries P L))"
proof -
  note m = map_of_merge_dictionaries[OF assms, of P k]
  have 1: "map_of L k = None \<longrightarrow> map_of (merge_dictionaries P L) k = map_of P k"
    by (simp add: m)
  have 2: "map_of P k = None \<longrightarrow> map_of (merge_dictionaries P L) k = map_of L k"
    by (simp add: m split: option.splits)
  have 3: "\<forall>pv lv. map_of P k = Some pv \<and> map_of L k = Some lv \<and> as_dict pv = None \<and> as_dict lv = None
          \<longrightarrow> map_of (merge_dictionaries P L) k = Some lv"
    by (simp add: m)
  have 4: "\<forall>pm lm. map_of P k = Some (PDict pm) \<and> map_of L k = Some (PDict lm)
          \<longrightarrow> map_of (merge_dictionaries P L) k = Some (PDict (merge_dictionaries pm lm))"
    by (simp add: m)
  have 5: "merge_dictionaries [(k, nest ks (PDict P))] [(k, nest ks (PDict L))] =
          [(k, nest ks (PDict (merge_dictionaries P L)))]"
    by (rule merge_nested)
  have 6: "ws_workflow_data s = Some P \<and> workflow_data w = Some L \<longrightarrow>
          workflow_data (fst (from_workflow_session C w s)) = Some (merge_dictionaries P L)
        \<and> ws_workflow_data (snd (from_workflow_session C w s)) = Some (merge_dictionaries P L)"
    by (simp add: fws_maps merge_opt_def merged_def)
  have 7: "ws_user_data s = Some P \<and> user_data w = Some L \<longrightarrow>
          user_data (fst (from_workflow_session C w s)) = Some (merge_dictionaries P L)
        \<and> ws_user_data (snd (from_workflow_session C w s)) = Some (merge_dictionaries P L)"
    by (simp add: fws_maps merge_opt_def merged_def)
  have 8: "ws_session_data s = Some P \<and> session_data w = Some L \<longrightarrow>
          session_data (fst (from_workflow_session C w s)) = Some (merge_dictionaries P L)
        \<and> ws_session_data (snd (from_workflow_session C w s)) = Some (merge_dictionaries P L)"
    by (simp add: fws_maps merge_opt_def merged_def)
  have 9: "ws_session_state s = Some P \<and> session_state w = Some L \<longrightarrow>
          session_state (fst (from_workflow_session C w s)) = Some (merge_dictionaries P L)
        \<and> ws_session_state (snd (from_workflow_session C w s)) = Some (merge_dictionaries P L)"
    by (simp add: fws_maps merge_opt_def merged_def)
  from 1 2 3 4 5 6 7 8 9 show ?thesis
    by (intro conjI)
qed

theorem merge_precedence_witness:
  "distinct (map fst local_example)
   \<and> map_of (merge_dictionaries persisted_example local_example) ''a'' = Some (PInt 5)
   \<and> map_of (merge_dictionaries persisted_example local_example) ''keep'' = Some (PInt 2)
   \<and> map_of (merge_dictionaries persisted_example local_example) ''new'' = Some (PInt 7)
   \<and> map_of (merge_dictionaries persisted_example local_example) ''cfg'' =
       Some (PDict [(''x'', PDict [(''y'', PDict [(''p'', PInt 9), (''q'', PInt 2), (''r'', PInt 3)])])])
   \<and> workflow_data (fst (from_workflow_session example_codec
        (example_workflow\<lparr>workflow_data := Some local_example\<rparr>)
        (example_session None (Some persisted_example) None))) =
       Some (merge_dictionaries persisted_example local_example)"
proof -
  have d: "distinct (map fst local_example)"
    by (simp add: local_example_def)
  have a: "map_of (merge_dictionaries persisted_example local_example) ''a'' = Some (PInt 5)"
    using merge_precedence[OF d, of "''a''" persisted_example]
    by (simp add: local_example_def persisted_example_def)
  have keep: "map_of (merge_dictionaries persisted_example local_example) ''keep'' = Some (PInt 2)"
    using merge_precedence[OF d, of "''keep''" persisted_example]
    by (simp add: local_example_def persisted_example_def)
  have new: "map_of (merge_dictionaries persisted_example local_example) ''new'' = Some (PInt 7)"
    using merge_precedence[OF d, of "''new''" persisted_example]
    by (simp add: local_example_def persisted_example_def)
  have cfg: "map_of (merge_dictionaries persisted_example local_example) ''cfg'' =
       Some (PDict [(''x'', PDict [(''y'', PDict [(''p'', PInt 9), (''q'', PInt 2), (''r'', PInt 3)])])])"
    using merge_precedence[OF d, of "''cfg''" persisted_example]
    by (simp add: local_example_def persisted_example_def)
  have w: "workflow_data (fst (from_workflow_session example_codec
        (example_workflow\<lparr>workflow_data := Some local_example\<rparr>)
        (example_session None (Some persisted_example) None))) =
       Some (merge_dictionaries persisted_example local_example)"
    using merge_precedence[OF d, of _ persisted_example _
        "example_session None (Some persisted_example) None"
        "example_workflow\<lparr>workflow_data := Some local_example\<rparr>" example_codec]
    by (simp add: example_session_def)
  show ?thesis using d a keep new cfg w by simp
qed

subsection \<open>C9: adoption of the persisted names\<close>

text \<open>
  Claim C9.  When a session is loaded into a workflow whose \<open>name\<close> is not set, the
  workflow takes the name that the persisted \<^verbatim>\<open>workflow_data\<close> has under \<^verbatim>\<open>name\<close>, and
  likewise \<open>session_name\<close> from the persisted \<^verbatim>\<open>session_data\<close>.  The value taken is the
  one the persisted map holds before the merge: it does not depend on the workflow's own
  map, whose entry would win the merge.  A name or session name that is set is kept.
  The constructor sets the name (to the class name when none is given), so the name of a
  workflow as constructed is kept.
\<close>

theorem name_adoption:
  "(\<forall>pd v. name w = PNone \<and> ws_workflow_data s = Some pd \<and> map_of pd ''name'' = Some v
        \<longrightarrow> name (fst (from_workflow_session C w s)) = v)
   \<and> (\<forall>sd v. session_name w = PNone \<and> ws_session_data s = Some sd
          \<and> map_of sd ''session_name'' = Some v
        \<longrightarrow> session_name (fst (from_workflow_session C w s)) = v)
   \<and> (name w \<noteq> PNone \<longrightarrow> name (fst (from_workflow_session C w s)) = name w)
   \<and> (session_name w \<noteq> PNone \<longrightarrow>
        session_name (fst (from_workflow_session C w s)) = session_name w)
   \<and> name (fst (from_workflow_session C (init_name cls w) s)) = name (init_name cls w)"
proof -
  have "name (fst (from_workflow_session C (init_name cls w) s)) = name (init_name cls w)"
    using init_name_set[of cls w]
    by (simp add: fws_names adopt_name_def split: option.splits)
  then show ?thesis
    by (simp add: fws_names adopt_name_def dict_get_def split: option.splits)
qed

theorem name_adoption_witness:
  "name (fst (from_workflow_session example_codec
      (example_workflow\<lparr>name := PNone, workflow_data := Some [(''name'', PStr ''Local'')]\<rparr>)
      (example_session None (Some [(''name'', PStr ''Stored'')])
         (Some [(''session_name'', PStr ''Monday'')])))) = PStr ''Stored''
   \<and> workflow_data (fst (from_workflow_session example_codec
      (example_workflow\<lparr>name := PNone, workflow_data := Some [(''name'', PStr ''Local'')]\<rparr>)
      (example_session None (Some [(''name'', PStr ''Stored'')])
         (Some [(''session_name'', PStr ''Monday'')])))) = Some [(''name'', PStr ''Local'')]
   \<and> session_name (fst (from_workflow_session example_codec
      (example_workflow\<lparr>name := PNone, workflow_data := Some [(''name'', PStr ''Local'')]\<rparr>)
      (example_session None (Some [(''name'', PStr ''Stored'')])
         (Some [(''session_name'', PStr ''Monday'')])))) = PStr ''Monday''
   \<and> name (fst (from_workflow_session example_codec example_workflow
      (example_session None (Some [(''name'', PStr ''Stored'')]) None))) = PStr ''Demo''
   \<and> session_name (fst (from_workflow_session example_codec
      (example_workflow\<lparr>session_name := PStr ''Mine''\<rparr>)
      (example_session None None (Some [(''session_name'', PStr ''Monday'')])))) = PStr ''Mine''"
proof -
  let ?w = "example_workflow\<lparr>name := PNone, workflow_data := Some [(''name'', PStr ''Local'')]\<rparr>"
  let ?s = "example_session None (Some [(''name'', PStr ''Stored'')])
         (Some [(''session_name'', PStr ''Monday'')])"
  have 1: "name (fst (from_workflow_session example_codec ?w ?s)) = PStr ''Stored''"
    using name_adoption[of ?w ?s example_codec]
    by (simp add: example_session_def example_workflow_def)
  have 2: "workflow_data (fst (from_workflow_session example_codec ?w ?s)) =
      Some [(''name'', PStr ''Local'')]"
    by (simp add: fws_maps merge_opt_def merged_def example_session_def)
  have 3: "session_name (fst (from_workflow_session example_codec ?w ?s)) = PStr ''Monday''"
    using name_adoption[of ?w ?s example_codec]
    by (simp add: example_session_def example_workflow_def)
  have 4: "name (fst (from_workflow_session example_codec example_workflow
      (example_session None (Some [(''name'', PStr ''Stored'')]) None))) = PStr ''Demo''"
    using name_adoption[of example_workflow
        "example_session None (Some [(''name'', PStr ''Stored'')]) None" example_codec]
    by (simp add: example_workflow_def)
  have 5: "session_name (fst (from_workflow_session example_codec
      (example_workflow\<lparr>session_name := PStr ''Mine''\<rparr>)
      (example_session None None (Some [(''session_name'', PStr ''Monday'')])))) = PStr ''Mine''"
    using name_adoption[of "example_workflow\<lparr>session_name := PStr ''Mine''\<rparr>"
        "example_session None None (Some [(''session_name'', PStr ''Monday'')])" example_codec]
    by simp
  from 1 2 3 4 5 show ?thesis by (intro conjI)
qed

subsection \<open>C5: the persisted run history replaces the one in memory\<close>

text \<open>
  Claim C5.  When the persisted memory holds a list of runs under \<^verbatim>\<open>runs\<close> and every
  entry of it is reconstructed (the \<open>i\<close>-th entry to the record \<open>rs ! i\<close>), the history
  of the workflow after the load is exactly \<open>rs\<close>, in that order, whatever the history in
  memory was before: nothing of it is kept or merged.
\<close>

theorem history_replaced:
  assumes "ws_memory s = Some mem"
    and "map_of mem ''runs'' = Some (PList ms)"
    and "map (entry_run C) ms = map Some rs"
  shows "memory_runs (fst (from_workflow_session C w s)) = rs"
proof -
  have "build_runs C ms = Some rs"
    using assms(3) by (simp add: build_runs_Some)
  then show ?thesis
    using assms(1,2) by (simp add: fws_history history_after_def load_runs_def)
qed

theorem history_replaced_witness:
  "memory_runs (fst (from_workflow_session example_codec
      (example_workflow\<lparr>memory_runs := [run_two]\<rparr>)
      (example_session (Some (to_dict example_codec [run_one, run_two])) None None))) =
     [run_one, run_two]"
proof -
  let ?s = "example_session (Some (to_dict example_codec [run_one, run_two])) None None"
  have 1: "ws_memory ?s = Some (to_dict example_codec [run_one, run_two])"
    by (simp add: example_session_def)
  have 2: "map_of (to_dict example_codec [run_one, run_two]) ''runs'' =
      Some (PList [PDict (run_dict run_one), PDict (run_dict run_two)])"
    by (simp add: example_codec_def)
  have 3: "map (entry_run example_codec) [PDict (run_dict run_one), PDict (run_dict run_two)] =
      map Some [run_one, run_two]"
    by (simp add: example_roundtrip)
  show ?thesis
    by (rule history_replaced[OF 1 2 3])
qed

subsection \<open>C6: a malformed entry of the persisted run history\<close>

text \<open>
  Claim C6 says that a malformed entry of the persisted history is skipped and the other
  entries are still loaded.  The list comprehension is inside one \<^verbatim>\<open>try\<close>, so that is
  not what happens: of a history of two well-formed entries around the entry \<^verbatim>\<open>5\<close>, a
  new workflow loads nothing.
\<close>

theorem history_skip_counterexample:
  "entry_run example_codec (PDict (run_dict run_one)) = Some run_one
   \<and> entry_run example_codec (PDict (run_dict run_two)) = Some run_two
   \<and> memory_runs (fst (from_workflow_session example_codec example_workflow
        (example_session
           (Some [(''runs'', PList [PDict (run_dict run_one), PInt 5, PDict (run_dict run_two)])])
           None None))) = []"
proof -
  have "load_runs example_codec (PList [PDict (run_dict run_one), PInt 5, PDict (run_dict run_two)])
      = None"
    using example_roundtrip(1) by (simp add: load_runs_def entry_run_def)
  then have "memory_runs (fst (from_workflow_session example_codec example_workflow
        (example_session
           (Some [(''runs'', PList [PDict (run_dict run_one), PInt 5, PDict (run_dict run_two)])])
           None None))) = memory_runs example_workflow"
    by (simp add: fws_history history_after_def example_session_def)
  then show ?thesis
    by (simp add: example_roundtrip example_workflow_def)
qed

text \<open>
  Claim C6 as amended.  When the reconstruction of any entry of the persisted history
  fails, the load of the history is given up as a whole: the history in memory is what
  it was before the load and one warning is logged.  The failure is not fatal:
  \<^verbatim>\<open>from_workflow_session\<close> returns, having loaded the other fields.
\<close>

theorem history_load_all_or_nothing:
  assumes "ws_memory s = Some mem"
    and "map_of mem ''runs'' = Some v"
    and "py_iter v = Some ms"
    and "m \<in> set ms"
    and "entry_run C m = None"
  shows "memory_runs (fst (from_workflow_session C w s)) = memory_runs w
    \<and> warnings (fst (from_workflow_session C w s)) = warnings w @ [FailedToLoadWorkflowMemory]"
proof -
  have "load_runs C v = None"
    using assms(3) build_runs_None[OF assms(4,5)] by (simp add: load_runs_def)
  then show ?thesis
    using assms(1,2) by (simp add: fws_history history_after_def load_failed_def)
qed

theorem history_load_all_or_nothing_witness:
  "memory_runs (fst (from_workflow_session example_codec
      (example_workflow\<lparr>memory_runs := [run_two]\<rparr>)
      (example_session
         (Some [(''runs'', PList [PDict (run_dict run_one), PInt 5, PDict (run_dict run_two)])])
         None None))) = [run_two]
   \<and> warnings (fst (from_workflow_session example_codec
      (example_workflow\<lparr>memory_runs := [run_two]\<rparr>)
      (example_session
         (Some [(''runs'', PList [PDict (run_dict run_one), PInt 5, PDict (run_dict run_two)])])
         None None))) = [FailedToLoadWorkflowMemory]"
proof -
  let ?ms = "[PDict (run_dict run_one), PInt 5, PDict (run_dict run_two)]"
  let ?s = "example_session (Some [(''runs'', PList ?ms)]) None None"
  have 1: "ws_memory ?s = Some [(''runs'', PList ?ms)]"
    by (simp add: example_session_def)
  have 2: "map_of [(''runs'', PList ?ms)] ''runs'' = Some (PList ?ms)"
    by simp
  have 3: "py_iter (PList ?ms) = Some ?ms"
    by simp
  have 4: "PInt 5 \<in> set ?ms"
    by simp
  have 5: "entry_run example_codec (PInt 5) = None"
    by (simp add: entry_run_def)
  show ?thesis
    using history_load_all_or_nothing[OF 1 2 3 4 5, of "example_workflow\<lparr>memory_runs := [run_two]\<rparr>"]
    by (simp add: example_workflow_def)
qed

subsection \<open>C8: renaming a session\<close>

text \<open>
  Claim C8 says that whenever the backend has a record for the session id,
  \<^verbatim>\<open>rename_session\<close> sets \<^verbatim>\<open>session_name\<close> in the record's \<^verbatim>\<open>session_data\<close> and upserts
  the record once.  A record may have no \<^verbatim>\<open>session_data\<close> (\<^verbatim>\<open>from_workflow_session\<close>
  tests for that); on such a record the item assignment raises a \<^verbatim>\<open>TypeError\<close>: the
  backend has received the read and no upsert, and holds the record as it was.
\<close>

theorem rename_session_counterexample:
  "stored (example_workflow\<lparr>storage := Some (storage_with (example_session None None None))\<rparr>)
      ''s1'' = Some (example_session None None None)
   \<and> fst (rename_session ''s1'' ''Monday''
        (example_workflow\<lparr>storage := Some (storage_with (example_session None None None))\<rparr>))
       = Inl TypeError
   \<and> store_ops (snd (rename_session ''s1'' ''Monday''
        (example_workflow\<lparr>storage := Some (storage_with (example_session None None None))\<rparr>)))
       = [Read ''s1'']
   \<and> stored (snd (rename_session ''s1'' ''Monday''
        (example_workflow\<lparr>storage := Some (storage_with (example_session None None None))\<rparr>)))
      ''s1'' = Some (example_session None None None)"
proof -
  let ?p = "example_session None None None"
  let ?w = "example_workflow\<lparr>storage := Some (storage_with ?p)\<rparr>"
  have st: "storage ?w = Some (storage_with ?p)"
    by simp
  have rec: "map_of (table (storage_with ?p)) ''s1'' = Some ?p"
    by (simp add: storage_with_def)
  have nd: "ws_session_data ?p = None"
    by (simp add: example_session_def)
  have 1: "stored ?w ''s1'' = Some ?p"
    by (simp add: stored_def storage_with_def)
  have r: "rename_session ''s1'' ''Monday'' ?w =
      (Inl TypeError,
       ?w\<lparr>storage := Some ((storage_with ?p)\<lparr>ops := ops (storage_with ?p) @ [Read ''s1'']\<rparr>)\<rparr>)"
    by (rule rename_session_no_data[OF st rec nd])
  have 2: "fst (rename_session ''s1'' ''Monday'' ?w) = Inl TypeError"
    unfolding r fst_conv by (rule refl)
  have 3: "store_ops (snd (rename_session ''s1'' ''Monday'' ?w)) = [Read ''s1'']"
    unfolding r snd_conv by (simp add: store_ops_def storage_with_def)
  have 4: "stored (snd (rename_session ''s1'' ''Monday'' ?w)) ''s1'' = Some ?p"
    unfolding r snd_conv by (simp add: stored_def storage_with_def)
  show ?thesis
    by (intro conjI, rule 1, rule 2, rule 3, rule 4)
qed

text \<open>
  Claim C8 as amended.  On a workflow with a storage backend: when the backend has no
  record for the session id, \<^verbatim>\<open>rename_session\<close> raises the exception
  \<^verbatim>\<open>WorkflowSession not found\<close> after its one read, with no upsert and the table of the
  backend as it was; when the backend has a record whose \<^verbatim>\<open>session_data\<close> is a
  dictionary, it sets \<^verbatim>\<open>session_name\<close> in the record's \<^verbatim>\<open>session_data\<close> to the new name
  and upserts that record, exactly once.
\<close>

theorem rename_session_spec:
  assumes "storage w = Some st"
  shows "(map_of (table st) sid = None \<longrightarrow>
            fst (rename_session sid nm w) = Inl (Exception (''WorkflowSession not found: '' @ sid))
          \<and> store_ops (snd (rename_session sid nm w)) = ops st @ [Read sid]
          \<and> upserts (snd (rename_session sid nm w)) = upserts w
          \<and> stored (snd (rename_session sid nm w)) = stored w)
    \<and> (\<forall>s d. map_of (table st) sid = Some s \<and> ws_session_data s = Some d \<longrightarrow>
            fst (rename_session sid nm w) = Inr ()
          \<and> store_ops (snd (rename_session sid nm w)) =
              ops st @ [Read sid,
                Upsert (s\<lparr>ws_session_data := Some (AList.update ''session_name'' (PStr nm) d)\<rparr>)]
          \<and> upserts (snd (rename_session sid nm w)) = Suc (upserts w))"
proof -
  have 1: "map_of (table st) sid = None \<longrightarrow>
            fst (rename_session sid nm w) = Inl (Exception (''WorkflowSession not found: '' @ sid))
          \<and> store_ops (snd (rename_session sid nm w)) = ops st @ [Read sid]
          \<and> upserts (snd (rename_session sid nm w)) = upserts w
          \<and> stored (snd (rename_session sid nm w)) = stored w"
    using assms
    by (auto simp: rename_session_absent store_ops_def upserts_def stored_def fun_eq_iff)
  have 2: "\<forall>s d. map_of (table st) sid = Some s \<and> ws_session_data s = Some d \<longrightarrow>
            fst (rename_session sid nm w) = Inr ()
          \<and> store_ops (snd (rename_session sid nm w)) =
              ops st @ [Read sid,
                Upsert (s\<lparr>ws_session_data := Some (AList.update ''session_name'' (PStr nm) d)\<rparr>)]
          \<and> upserts (snd (rename_session sid nm w)) = Suc (upserts w)"
    using assms
    by (auto simp: rename_session_present store_ops_def upserts_def storage_upsert_ops)
  from 1 2 show ?thesis by (intro conjI)
qed

theorem rename_session_spec_witness:
  "fst (rename_session ''unknown-id'' ''x''
      (example_workflow\<lparr>storage := Some (storage_with (example_session None None (Some [])))\<rparr>))
     = Inl (Exception ''WorkflowSession not found: unknown-id'')
   \<and> store_ops (snd (rename_session ''unknown-id'' ''x''
      (example_workflow\<lparr>storage := Some (storage_with (example_session None None (Some [])))\<rparr>)))
     = [Read ''unknown-id'']
   \<and> fst (rename_session ''s1'' ''Monday''
      (example_workflow\<lparr>storage := Some (storage_with (example_session None None (Some [])))\<rparr>))
     = Inr ()
   \<and> store_ops (snd (rename_session ''s1'' ''Monday''
      (example_workflow\<lparr>storage := Some (storage_with (example_session None None (Some [])))\<rparr>)))
     = [Read ''s1'',
        Upsert (example_session None None (Some [(''session_name'', PStr ''Monday'')]))]"
proof -
  let ?st = "storage_with (example_session None None (Some []))"
  let ?w = "example_workflow\<lparr>storage := Some ?st\<rparr>"
  have st: "storage ?w = Some ?st"
    by simp
  have 1: "fst (rename_session ''unknown-id'' ''x'' ?w)
       = Inl (Exception ''WorkflowSession not found: unknown-id'')
     \<and> store_ops (snd (rename_session ''unknown-id'' ''x'' ?w)) = [Read ''unknown-id'']"
    using rename_session_spec[OF st, of "''unknown-id''" "''x''"]
    by (simp add: storage_with_def)
  have 2: "fst (rename_session ''s1'' ''Monday'' ?w) = Inr ()
     \<and> store_ops (snd (rename_session ''s1'' ''Monday'' ?w))
       = [Read ''s1'',
          Upsert (example_session None None (Some [(''session_name'', PStr ''Monday'')]))]"
    using rename_session_spec[OF st, of "''s1''" "''Monday''"]
    by (simp add: storage_with_def example_session_def)
  from 1 2 show ?thesis by simp
qed

subsection \<open>C10: what \<^verbatim>\<open>rename_session\<close> takes for granted\<close>

text \<open>
  Claim C10.  \<^verbatim>\<open>rename_session\<close> returns normally exactly when the workflow has a storage
  backend, the backend has a record for the session id and the \<^verbatim>\<open>session_data\<close> of that
  record is not \<^verbatim>\<open>None\<close>.  Without a backend it fails with an \<^verbatim>\<open>AttributeError\<close>; on a
  record without \<^verbatim>\<open>session_data\<close> it fails with a \<^verbatim>\<open>TypeError\<close> after the read and before
  any upsert; the exception for a missing session is raised only when a backend is there
  and has no record.  \<^verbatim>\<open>read_from_storage\<close>, \<^verbatim>\<open>write_to_storage\<close> and \<^verbatim>\<open>load_session\<close>
  guard against a missing backend and do nothing then.
\<close>

theorem rename_session_preconditions:
  "(storage w = None \<longrightarrow> rename_session sid nm w = (Inl AttributeError, w))
   \<and> (\<forall>st s. storage w = Some st \<and> map_of (table st) sid = Some s \<and> ws_session_data s = None
          \<longrightarrow> rename_session sid nm w =
                (Inl TypeError, w\<lparr>storage := Some (st\<lparr>ops := ops st @ [Read sid]\<rparr>)\<rparr>))
   \<and> (fst (rename_session sid nm w) = Inr () \<longleftrightarrow>
        (\<exists>st s d. storage w = Some st \<and> map_of (table st) sid = Some s
           \<and> ws_session_data s = Some d))
   \<and> ((\<exists>msg. fst (rename_session sid nm w) = Inl (Exception msg)) \<longleftrightarrow>
        (\<exists>st. storage w = Some st \<and> map_of (table st) sid = None))
   \<and> (storage w = None \<longrightarrow>
        read_from_storage C w = w \<and> write_to_storage C w = w
        \<and> (\<exists>r. fst (load_session C force w) = Inr r))"
proof -
  have 1: "storage w = None \<longrightarrow> rename_session sid nm w = (Inl AttributeError, w)"
    by (simp add: rename_session_def)
  have 2: "\<forall>st s. storage w = Some st \<and> map_of (table st) sid = Some s \<and> ws_session_data s = None
          \<longrightarrow> rename_session sid nm w =
                (Inl TypeError, w\<lparr>storage := Some (st\<lparr>ops := ops st @ [Read sid]\<rparr>)\<rparr>)"
    by (simp add: rename_session_no_data)
  have cases: "fst (rename_session sid nm w) =
      (case storage w of
         None \<Rightarrow> Inl AttributeError
       | Some st \<Rightarrow>
           (case map_of (table st) sid of
              None \<Rightarrow> Inl (Exception (''WorkflowSession not found: '' @ sid))
            | Some s \<Rightarrow> (case ws_session_data s of None \<Rightarrow> Inl TypeError | Some d \<Rightarrow> Inr ())))"
    by (simp add: rename_session_def storage_read_def case_prod_beta split: option.splits)
  have 3: "fst (rename_session sid nm w) = Inr () \<longleftrightarrow>
        (\<exists>st s d. storage w = Some st \<and> map_of (table st) sid = Some s
           \<and> ws_session_data s = Some d)"
    unfolding cases by (auto split: option.splits)
  have 4: "(\<exists>msg. fst (rename_session sid nm w) = Inl (Exception msg)) \<longleftrightarrow>
        (\<exists>st. storage w = Some st \<and> map_of (table st) sid = None)"
    unfolding cases by (auto split: option.splits)
  have 5: "storage w = None \<longrightarrow>
        read_from_storage C w = w \<and> write_to_storage C w = w
        \<and> (\<exists>r. fst (load_session C force w) = Inr r)"
    by (simp add: read_from_storage_def write_to_storage_def load_session_def)
  from 1 2 3 4 5 show ?thesis by (intro conjI)
qed

theorem rename_session_preconditions_witness:
  "rename_session ''s1'' ''Monday'' (example_workflow\<lparr>storage := None\<rparr>)
     = (Inl AttributeError, example_workflow\<lparr>storage := None\<rparr>)
   \<and> rename_session ''s1'' ''Monday''
       (example_workflow\<lparr>storage := Some (storage_with (example_session None None None))\<rparr>)
     = (Inl TypeError,
        example_workflow\<lparr>storage := Some ((storage_with (example_session None None None))
           \<lparr>ops := [Read ''s1'']\<rparr>)\<rparr>)
   \<and> read_from_storage example_codec (example_workflow\<lparr>storage := None\<rparr>)
     = example_workflow\<lparr>storage := None\<rparr>"
proof -
  let ?w = "example_workflow\<lparr>storage := None\<rparr>"
  let ?st = "storage_with (example_session None None None)"
  let ?v = "example_workflow\<lparr>storage := Some ?st\<rparr>"
  have 1: "rename_session ''s1'' ''Monday'' ?w = (Inl AttributeError, ?w)
      \<and> read_from_storage example_codec ?w = ?w"
    using rename_session_preconditions[of ?w "''s1''" "''Monday''" example_codec]
    by simp
  have 2: "rename_session ''s1'' ''Monday'' ?v =
      (Inl TypeError, example_workflow\<lparr>storage := Some (?st\<lparr>ops := [Read ''s1'']\<rparr>)\<rparr>)"
    using rename_session_preconditions[of ?v "''s1''" "''Monday''"]
    by (simp add: storage_with_def example_session_def)
  from 1 2 show ?thesis by simp
qed

subsection \<open>C1: the content accumulated by a streaming run\<close>

text \<open>
  Claim C1.  When the subclass's \<^verbatim>\<open>run\<close> hands back an iterator, \<^verbatim>\<open>run_workflow\<close>
  returns a generator.  Pulling as many times as there are fragments yields every
  fragment, in order (each \<^verbatim>\<open>RunResponse\<close> stamped, any other value as it is), and the
  run history is still as it was.  One more pull ends the generator.  The content of the
  workflow's \<^verbatim>\<open>run_response\<close> is then the concatenation, in the order of emission, of the
  string contents of the \<^verbatim>\<open>RunResponse\<close> fragments (the others contribute nothing), and
  exactly one record has been appended to the run history: the input of the run with
  that \<^verbatim>\<open>run_response\<close>.
\<close>

theorem streaming_aggregation:
  assumes "subclass_run (run_workflow_begin C rid args kwargs w) args kwargs = Iterator items"
  shows "\<exists>wg wy wd.
      run_workflow C subclass_run rid args kwargs w = (Generator (Running items), wg)
    \<and> pulls C (length items) (Running items) wg = Inr (map (stamp_item wg) items, Running [], wy)
    \<and> memory_runs wy = memory_runs wg
    \<and> pulls C (Suc (length items)) (Running items) wg = Inr (map (stamp_item wg) items, Exhausted, wd)
    \<and> rr_content (run_response wd) = PStr (concat (map str_content items))
    \<and> ids (run_response wd) = (Some rid, session_id w, workflow_id w)
    \<and> memory_runs wd = memory_runs wg @
         [\<lparr>input = Some [(''args'', PList args), (''kwargs'', PDict kwargs)],
           response = run_response wd\<rparr>]"
proof -
  let ?wg = "(run_workflow_begin C rid args kwargs w)
        \<lparr>run_response := \<lparr>rr_run_id = Some rid, rr_session_id = session_id w,
                          rr_workflow_id = workflow_id w, rr_content = PStr []\<rparr>\<rparr>"
  let ?wy = "absorbed [] items ?wg"
  let ?wd = "finalize C ?wy"
  have c: "rr_content (run_response ?wg) = PStr []"
    by simp
  have 1: "run_workflow C subclass_run rid args kwargs w = (Generator (Running items), ?wg)"
    using assms by (rule run_workflow_iterator)
  have 2: "pulls C (length items) (Running items) ?wg =
      Inr (map (stamp_item ?wg) items, Running [], ?wy)"
    using pulls_running[OF c, of "length items" items C] by simp
  have 3: "memory_runs ?wy = memory_runs ?wg"
    by (simp add: absorbed_keeps)
  have 4: "pulls C (Suc (length items)) (Running items) ?wg =
      Inr (map (stamp_item ?wg) items, Exhausted, ?wd)"
    using pulls_drained[OF c, of items "Suc (length items)" C] by simp
  have 5: "rr_content (run_response ?wd) = PStr (concat (map str_content items))"
    by (simp add: finalize_keeps)
  have 6: "ids (run_response ?wd) = (Some rid, session_id w, workflow_id w)"
    by (simp add: finalize_keeps absorbed_keeps) (simp add: ids_def)
  have 7: "memory_runs ?wd = memory_runs ?wg @
         [\<lparr>input = Some [(''args'', PList args), (''kwargs'', PDict kwargs)],
           response = run_response ?wd\<rparr>]"
    by (simp add: finalize_keeps absorbed_keeps begin_keeps)
  from 1 2 3 4 5 6 7 show ?thesis by blast
qed

theorem streaming_aggregation_witness:
  "\<exists>wg wy wd.
      run_workflow example_codec hello_run ''r1'' [] [] example_workflow =
        (Generator (Running hello_items), wg)
    \<and> pulls example_codec 3 (Running hello_items) wg =
        Inr (map (stamp_item wg) hello_items, Running [], wy)
    \<and> memory_runs wy = memory_runs wg
    \<and> pulls example_codec 4 (Running hello_items) wg =
        Inr (map (stamp_item wg) hello_items, Exhausted, wd)
    \<and> rr_content (run_response wd) = PStr ''Hello World''
    \<and> ids (run_response wd) = (Some ''r1'', Some ''s1'', Some ''w1'')
    \<and> memory_runs wd = memory_runs wg @
         [\<lparr>input = Some [(''args'', PList []), (''kwargs'', PDict [])],
           response = run_response wd\<rparr>]"
proof -
  have it: "hello_run (run_workflow_begin example_codec ''r1'' [] [] example_workflow) [] [] =
      Iterator hello_items"
    by (simp add: hello_run_def)
  have n: "length hello_items = 3" "Suc 3 = (4::nat)"
    by (simp_all add: hello_items_def)
  have c: "concat (map str_content hello_items) = ''Hello World''"
    by (simp add: hello_items_def fragment_def)
  have i: "session_id example_workflow = Some ''s1''" "workflow_id example_workflow = Some ''w1''"
    by (simp_all add: example_workflow_def)
  show ?thesis
    using streaming_aggregation[of hello_run example_codec "''r1''" "[]" "[]" example_workflow
        hello_items, OF it]
    unfolding n c i .
qed

subsection \<open>C2: the end of a streaming run happens once, after the last fragment\<close>

text \<open>
  Claim C2.  For a run that hands back an iterator: creating the generator appends
  nothing to the run history and upserts nothing; as long as the consumer has pulled no
  more often than there are fragments (so also when it stops after one of three), the
  run history and the calls received by the backend are as they were when the generator
  was created; any number of pulls beyond the fragments leaves exactly one record
  appended and, on a workflow with a storage backend, exactly one upsert, of a session
  that carries the history with the new record, so the append came first.  (Without a
  backend \<^verbatim>\<open>write_to_storage\<close> has nothing to write to.)
\<close>

theorem finalization_once:
  assumes "subclass_run (run_workflow_begin C rid args kwargs w) args kwargs = Iterator items"
  shows "\<exists>wg.
      run_workflow C subclass_run rid args kwargs w = (Generator (Running items), wg)
    \<and> memory_runs wg = memory_runs (run_workflow_begin C rid args kwargs w)
    \<and> upserts wg = upserts w
    \<and> (\<forall>k. k \<le> length items \<longrightarrow>
          (\<exists>ys wk. pulls C k (Running items) wg = Inr (ys, Running (drop k items), wk)
             \<and> memory_runs wk = memory_runs wg \<and> store_ops wk = store_ops wg))
    \<and> (\<forall>k. length items < k \<longrightarrow>
          (\<exists>ys wk. pulls C k (Running items) wg = Inr (ys, Exhausted, wk)
             \<and> memory_runs wk = memory_runs wg @
                  [\<lparr>input = run_input wg, response = run_response wk\<rparr>]
             \<and> (storage w \<noteq> None \<longrightarrow>
                   (\<exists>session. store_ops wk = store_ops wg @ [Upsert session]
                      \<and> ws_memory session = Some (to_dict C (memory_runs wk))
                      \<and> upserts wk = Suc (upserts w)))
             \<and> (storage w = None \<longrightarrow> store_ops wk = [])))"
proof -
  let ?wb = "run_workflow_begin C rid args kwargs w"
  let ?wg = "?wb\<lparr>run_response := \<lparr>rr_run_id = Some rid, rr_session_id = session_id w,
                          rr_workflow_id = workflow_id w, rr_content = PStr []\<rparr>\<rparr>"
  have c: "rr_content (run_response ?wg) = PStr []"
    by simp
  have st: "storage ?wg = None \<longleftrightarrow> storage w = None"
    by (auto simp: begin_storage split: option.splits)
  have 1: "run_workflow C subclass_run rid args kwargs w = (Generator (Running items), ?wg)"
    using assms by (rule run_workflow_iterator)
  have 2: "memory_runs ?wg = memory_runs ?wb"
    by simp
  have 3: "upserts ?wg = upserts w"
    by (auto simp: upserts_def store_ops_def begin_storage split: option.splits)
  have 4: "\<forall>k. k \<le> length items \<longrightarrow>
          (\<exists>ys wk. pulls C k (Running items) ?wg = Inr (ys, Running (drop k items), wk)
             \<and> memory_runs wk = memory_runs ?wg \<and> store_ops wk = store_ops ?wg)"
    by (simp add: pulls_running[OF c] absorbed_keeps)
  have 5: "\<forall>k. length items < k \<longrightarrow>
          (\<exists>ys wk. pulls C k (Running items) ?wg = Inr (ys, Exhausted, wk)
             \<and> memory_runs wk = memory_runs ?wg @
                  [\<lparr>input = run_input ?wg, response = run_response wk\<rparr>]
             \<and> (storage w \<noteq> None \<longrightarrow>
                   (\<exists>session. store_ops wk = store_ops ?wg @ [Upsert session]
                      \<and> ws_memory session = Some (to_dict C (memory_runs wk))
                      \<and> upserts wk = Suc (upserts w)))
             \<and> (storage w = None \<longrightarrow> store_ops wk = []))"
  proof (intro allI impI)
    fix k
    assume k: "length items < k"
    let ?wy = "absorbed [] items ?wg"
    let ?wk = "finalize C ?wy"
    let ?session = "fst (get_workflow_session C
        (add_run \<lparr>input = run_input ?wy, response = run_response ?wy\<rparr> ?wy))"
    have sy: "storage ?wy = None \<longleftrightarrow> storage w = None"
      using st by (simp add: absorbed_keeps)
    have a: "pulls C k (Running items) ?wg = Inr (map (stamp_item ?wg) items, Exhausted, ?wk)"
      by (rule pulls_drained[OF c k])
    have b: "memory_runs ?wk = memory_runs ?wg @
                  [\<lparr>input = run_input ?wg, response = run_response ?wk\<rparr>]"
      by (simp add: finalize_keeps absorbed_keeps)
    have d: "storage w \<noteq> None \<longrightarrow>
        (\<exists>session. store_ops ?wk = store_ops ?wg @ [Upsert session]
           \<and> ws_memory session = Some (to_dict C (memory_runs ?wk))
           \<and> upserts ?wk = Suc (upserts w))"
    proof
      assume "storage w \<noteq> None"
      then have "storage ?wy \<noteq> None"
        using sy by simp
      from finalize_ops[OF this, of C]
      have o: "store_ops ?wk = store_ops ?wg @ [Upsert ?session]"
        by (simp add: absorbed_keeps)
      have m: "ws_memory ?session = Some (to_dict C (memory_runs ?wk))"
        by (rule finalize_session_memory)
      have "upserts ?wk = Suc (upserts w)"
        using 3 o by (simp add: upserts_def)
      with o m show "\<exists>session. store_ops ?wk = store_ops ?wg @ [Upsert session]
           \<and> ws_memory session = Some (to_dict C (memory_runs ?wk))
           \<and> upserts ?wk = Suc (upserts w)"
        by blast
    qed
    have e: "storage w = None \<longrightarrow> store_ops ?wk = []"
    proof
      assume "storage w = None"
      then have "storage ?wy = None"
        using sy by simp
      then show "store_ops ?wk = []"
        by (simp add: finalize_def write_to_storage_ops add_run_def)
    qed
    show "\<exists>ys wk. pulls C k (Running items) ?wg = Inr (ys, Exhausted, wk)
             \<and> memory_runs wk = memory_runs ?wg @
                  [\<lparr>input = run_input ?wg, response = run_response wk\<rparr>]
             \<and> (storage w \<noteq> None \<longrightarrow>
                   (\<exists>session. store_ops wk = store_ops ?wg @ [Upsert session]
                      \<and> ws_memory session = Some (to_dict C (memory_runs wk))
                      \<and> upserts wk = Suc (upserts w)))
             \<and> (storage w = None \<longrightarrow> store_ops wk = [])"
      by (rule exI, rule exI, intro conjI, rule a, rule b, rule d, rule e)
  qed
  show ?thesis
    by (rule exI, intro conjI, rule 1, rule 2, rule 3, rule 4, rule 5)
qed

theorem finalization_once_witness:
  "\<exists>wg.
      run_workflow example_codec hello_run ''r1'' [] [] example_workflow =
        (Generator (Running hello_items), wg)
    \<and> upserts wg = 0
    \<and> (\<exists>ys wk. pulls example_codec 1 (Running hello_items) wg =
            Inr (ys, Running (drop 1 hello_items), wk)
          \<and> memory_runs wk = memory_runs wg \<and> store_ops wk = store_ops wg)
    \<and> (\<exists>ys wk session. pulls example_codec 4 (Running hello_items) wg = Inr (ys, Exhausted, wk)
          \<and> memory_runs wk = memory_runs wg @
               [\<lparr>input = run_input wg, response = run_response wk\<rparr>]
          \<and> store_ops wk = store_ops wg @ [Upsert session]
          \<and> ws_memory session = Some (to_dict example_codec (memory_runs wk))
          \<and> upserts wk = 1)"
proof -
  have it: "hello_run (run_workflow_begin example_codec ''r1'' [] [] example_workflow) [] [] =
      Iterator hello_items"
    by (simp add: hello_run_def)
  have st: "storage example_workflow \<noteq> None"
    by (simp add: example_workflow_def)
  have u: "upserts example_workflow = 0"
    by (simp add: upserts_def store_ops_def example_workflow_def empty_storage_def)
  have n: "1 \<le> length hello_items" "length hello_items < 4"
    by (simp_all add: hello_items_def)
  from finalization_once[of hello_run example_codec "''r1''" "[]" "[]" example_workflow
        hello_items, OF it]
  obtain wg where
    1: "run_workflow example_codec hello_run ''r1'' [] [] example_workflow =
        (Generator (Running hello_items), wg)"
    and 2: "upserts wg = upserts example_workflow"
    and 3: "\<forall>k. k \<le> length hello_items \<longrightarrow>
          (\<exists>ys wk. pulls example_codec k (Running hello_items) wg =
              Inr (ys, Running (drop k hello_items), wk)
             \<and> memory_runs wk = memory_runs wg \<and> store_ops wk = store_ops wg)"
    and 4: "\<forall>k. length hello_items < k \<longrightarrow>
          (\<exists>ys wk. pulls example_codec k (Running hello_items) wg = Inr (ys, Exhausted, wk)
             \<and> memory_runs wk = memory_runs wg @
                  [\<lparr>input = run_input wg, response = run_response wk\<rparr>]
             \<and> (storage example_workflow \<noteq> None \<longrightarrow>
                   (\<exists>session. store_ops wk = store_ops wg @ [Upsert session]
                      \<and> ws_memory session = Some (to_dict example_codec (memory_runs wk))
                      \<and> upserts wk = Suc (upserts example_workflow)))
             \<and> (storage example_workflow = None \<longrightarrow> store_ops wk = []))"
    by blast
  from 3 n(1) have 5: "\<exists>ys wk. pulls example_codec 1 (Running hello_items) wg =
            Inr (ys, Running (drop 1 hello_items), wk)
          \<and> memory_runs wk = memory_runs wg \<and> store_ops wk = store_ops wg"
    by blast
  from 4 n(2) st have 6: "\<exists>ys wk session. pulls example_codec 4 (Running hello_items) wg =
            Inr (ys, Exhausted, wk)
          \<and> memory_runs wk = memory_runs wg @
               [\<lparr>input = run_input wg, response = run_response wk\<rparr>]
          \<and> store_ops wk = store_ops wg @ [Upsert session]
          \<and> ws_memory session = Some (to_dict example_codec (memory_runs wk))
          \<and> upserts wk = Suc (upserts example_workflow)"
    by blast
  from 2 u have 7: "upserts wg = 0"
    by simp
  from 6 u have 8: "\<exists>ys wk session. pulls example_codec 4 (Running hello_items) wg =
            Inr (ys, Exhausted, wk)
          \<and> memory_runs wk = memory_runs wg @
               [\<lparr>input = run_input wg, response = run_response wk\<rparr>]
          \<and> store_ops wk = store_ops wg @ [Upsert session]
          \<and> ws_memory session = Some (to_dict example_codec (memory_runs wk))
          \<and> upserts wk = 1"
    by simp
  from 1 7 5 8 show ?thesis by blast
qed

subsection \<open>C3: what \<^verbatim>\<open>run_workflow\<close> does with the session before the run\<close>

text \<open>
  Claim C3 says that \<^verbatim>\<open>run_workflow\<close> creates and persists a session when none is found,
  before it calls the subclass's \<^verbatim>\<open>run\<close>.  It calls \<^verbatim>\<open>read_from_storage\<close>, not
  \<^verbatim>\<open>load_session\<close>: on a new workflow with an empty backend, the backend has received one
  read and holds no record when \<^verbatim>\<open>run\<close> is called, and a \<^verbatim>\<open>run\<close> that looks for the
  record finds none; \<^verbatim>\<open>load_session\<close> on the same workflow does create the record.
\<close>

theorem session_not_ensured_counterexample:
  "stored (run_workflow_begin example_codec ''r1'' [] [] example_workflow) ''s1'' = None
   \<and> store_ops (run_workflow_begin example_codec ''r1'' [] [] example_workflow) = [Read ''s1'']
   \<and> fst (run_workflow example_codec probe ''r1'' [] [] example_workflow) =
       Returned \<lparr>rr_run_id = Some ''r1'', rr_session_id = Some ''s1'',
                 rr_workflow_id = Some ''w1'', rr_content = PBool False\<rparr>
   \<and> stored (snd (load_session example_codec False example_workflow)) ''s1'' \<noteq> None"
proof -
  let ?wb = "run_workflow_begin example_codec ''r1'' [] [] example_workflow"
  have 1: "stored ?wb ''s1'' = None"
    by (simp add: stored_def example_begin_storage empty_storage_def)
  have 2: "store_ops ?wb = [Read ''s1'']"
    by (simp add: store_ops_def example_begin_storage)
  have sid: "session_id ?wb = Some ''s1''"
    by (simp add: begin_keeps example_workflow_def)
  have wid: "workflow_id ?wb = Some ''w1''"
    by (simp add: begin_workflow_id example_workflow_def)
  have p: "probe ?wb [] [] = Response (fragment (PBool False))"
    by (simp add: probe_def sid 1)
  have "fst (run_workflow example_codec probe ''r1'' [] [] example_workflow) =
      Returned (stamp ?wb (fragment (PBool False)))"
    using rw_response_eq[of probe, OF p] by (simp only: fst_conv)
  moreover have "stamp ?wb (fragment (PBool False)) =
      \<lparr>rr_run_id = Some ''r1'', rr_session_id = Some ''s1'',
       rr_workflow_id = Some ''w1'', rr_content = PBool False\<rparr>"
    by (simp add: stamp_def fragment_def sid wid begin_keeps(1))
  ultimately have 3: "fst (run_workflow example_codec probe ''r1'' [] [] example_workflow) =
       Returned \<lparr>rr_run_id = Some ''r1'', rr_session_id = Some ''s1'',
                 rr_workflow_id = Some ''w1'', rr_content = PBool False\<rparr>"
    by (simp only:)
  have 4: "stored (snd (load_session example_codec False example_workflow)) ''s1'' \<noteq> None"
    by (simp add: load_session_def read_from_storage_def storage_read_def write_to_storage_def
        get_workflow_session_def get_workflow_data_def get_session_data_def storage_upsert_def
        stored_def example_workflow_def empty_storage_def Let_def)
  from 1 2 3 4 show ?thesis by (intro conjI)
qed

text \<open>
  Claim C3 as amended.  On a workflow with a storage backend and a session id,
  \<^verbatim>\<open>run_workflow\<close> reads the session from the backend once before it calls the
  subclass's \<^verbatim>\<open>run\<close>, and writes nothing: the backend has received that one read, its
  table is as it was and no upsert has been made when \<^verbatim>\<open>run\<close> is called.  When the backend
  has no record, no session is created: the workflow is as the first assignments left it,
  with an empty cache.  When the backend has a record, the workflow is what
  \<^verbatim>\<open>from_workflow_session\<close> makes of it and that record (the four maps are the merges of
  the persisted with the local ones, the run history is the persisted one where that
  loads), and the record as merged is cached.  After \<^verbatim>\<open>run\<close>: a run that returns a
  \<^verbatim>\<open>RunResponse\<close> ends with one upsert of a session with the workflow's session id, which
  a backend that accepts writes then holds; a run that hands back an iterator has made no
  upsert when the generator is created and makes that one upsert when the generator is
  drained; a run that returns anything else writes nothing.
\<close>

theorem run_reads_session_only:
  assumes "storage w = Some st" and "session_id w = Some sid"
  shows "storage (run_workflow_begin C rid args kwargs w) = Some (st\<lparr>ops := ops st @ [Read sid]\<rparr>)
    \<and> stored (run_workflow_begin C rid args kwargs w) = stored w
    \<and> upserts (run_workflow_begin C rid args kwargs w) = upserts w
    \<and> (stored w sid = None \<longrightarrow>
          run_workflow_begin C rid args kwargs w =
            (with_run rid args kwargs w)\<lparr>storage := Some (st\<lparr>ops := ops st @ [Read sid]\<rparr>),
                                         workflow_session := None\<rparr>)
    \<and> (\<forall>s. stored w sid = Some s \<longrightarrow>
          run_workflow_begin C rid args kwargs w =
            (fst (from_workflow_session C
               ((with_run rid args kwargs w)\<lparr>storage := Some (st\<lparr>ops := ops st @ [Read sid]\<rparr>),
                                             workflow_session := Some s\<rparr>) s))
            \<lparr>workflow_session := Some (snd (from_workflow_session C
               ((with_run rid args kwargs w)\<lparr>storage := Some (st\<lparr>ops := ops st @ [Read sid]\<rparr>),
                                             workflow_session := Some s\<rparr>) s))\<rparr>
        \<and> workflow_data (run_workflow_begin C rid args kwargs w) =
             merge_opt (ws_workflow_data s) (workflow_data w)
        \<and> user_data (run_workflow_begin C rid args kwargs w) =
             merge_opt (ws_user_data s) (user_data w)
        \<and> session_data (run_workflow_begin C rid args kwargs w) =
             merge_opt (ws_session_data s) (session_data w)
        \<and> session_state (run_workflow_begin C rid args kwargs w) =
             merge_opt (ws_session_state s) (session_state w)
        \<and> memory_runs (run_workflow_begin C rid args kwargs w) =
             history_after C (memory_runs w) (ws_memory s))
    \<and> (\<forall>result. subclass_run (run_workflow_begin C rid args kwargs w) args kwargs = Response result
          \<longrightarrow> (\<exists>session.
                 store_ops (snd (run_workflow C subclass_run rid args kwargs w)) =
                   ops st @ [Read sid, Upsert session]
               \<and> ws_session_id session = Some sid
               \<and> (writable st \<longrightarrow>
                    stored (snd (run_workflow C subclass_run rid args kwargs w)) sid = Some session)))
    \<and> (\<forall>items. subclass_run (run_workflow_begin C rid args kwargs w) args kwargs = Iterator items
          \<longrightarrow> (\<exists>wg. run_workflow C subclass_run rid args kwargs w = (Generator (Running items), wg)
               \<and> store_ops wg = ops st @ [Read sid]
               \<and> stored wg = stored w
               \<and> (\<forall>k. length items < k \<longrightarrow>
                     (\<exists>ys wk session. pulls C k (Running items) wg = Inr (ys, Exhausted, wk)
                        \<and> store_ops wk = ops st @ [Read sid, Upsert session]
                        \<and> ws_session_id session = Some sid
                        \<and> (writable st \<longrightarrow> stored wk sid = Some session)))))
    \<and> (\<forall>v. subclass_run (run_workflow_begin C rid args kwargs w) args kwargs = Unexpected v
          \<longrightarrow> fst (run_workflow C subclass_run rid args kwargs w) = ReturnedNone
            \<and> store_ops (snd (run_workflow C subclass_run rid args kwargs w)) = ops st @ [Read sid]
            \<and> stored (snd (run_workflow C subclass_run rid args kwargs w)) = stored w)"
proof -
  let ?wb = "run_workflow_begin C rid args kwargs w"
  let ?st = "st\<lparr>ops := ops st @ [Read sid]\<rparr>"
  let ?lit = "\<lambda>c. \<lparr>rr_run_id = Some rid, rr_session_id = session_id w,
                   rr_workflow_id = workflow_id w, rr_content = c\<rparr>"
  have sw: "stored w = (\<lambda>k. map_of (table st) k)"
    using assms(1) by (simp add: stored_def fun_eq_iff)
  have 1: "storage ?wb = Some ?st"
    using assms by (simp add: begin_storage)
  have sidb: "session_id ?wb = Some sid"
    using assms(2) by (simp add: begin_keeps)
  have 2: "stored ?wb = stored w"
    using assms 1 by (simp add: stored_def fun_eq_iff)
  have 3: "upserts ?wb = upserts w"
    using assms 1 by (simp add: upserts_def store_ops_def)
  have 4: "stored w sid = None \<longrightarrow>
          ?wb = (with_run rid args kwargs w)\<lparr>storage := Some ?st, workflow_session := None\<rparr>"
    using begin_absent[OF assms] by (simp add: sw)
  have 5: "\<forall>s. stored w sid = Some s \<longrightarrow>
          ?wb =
            (fst (from_workflow_session C
               ((with_run rid args kwargs w)\<lparr>storage := Some ?st, workflow_session := Some s\<rparr>) s))
            \<lparr>workflow_session := Some (snd (from_workflow_session C
               ((with_run rid args kwargs w)\<lparr>storage := Some ?st, workflow_session := Some s\<rparr>) s))\<rparr>
        \<and> workflow_data ?wb = merge_opt (ws_workflow_data s) (workflow_data w)
        \<and> user_data ?wb = merge_opt (ws_user_data s) (user_data w)
        \<and> session_data ?wb = merge_opt (ws_session_data s) (session_data w)
        \<and> session_state ?wb = merge_opt (ws_session_state s) (session_state w)
        \<and> memory_runs ?wb = history_after C (memory_runs w) (ws_memory s)"
  proof (intro allI impI)
    fix s
    assume "stored w sid = Some s"
    then have f: "map_of (table st) sid = Some s"
      by (simp add: sw)
    show "?wb =
            (fst (from_workflow_session C
               ((with_run rid args kwargs w)\<lparr>storage := Some ?st, workflow_session := Some s\<rparr>) s))
            \<lparr>workflow_session := Some (snd (from_workflow_session C
               ((with_run rid args kwargs w)\<lparr>storage := Some ?st, workflow_session := Some s\<rparr>) s))\<rparr>
        \<and> workflow_data ?wb = merge_opt (ws_workflow_data s) (workflow_data w)
        \<and> user_data ?wb = merge_opt (ws_user_data s) (user_data w)
        \<and> session_data ?wb = merge_opt (ws_session_data s) (session_data w)
        \<and> session_state ?wb = merge_opt (ws_session_state s) (session_state w)
        \<and> memory_runs ?wb = history_after C (memory_runs w) (ws_memory s)"
      by (intro conjI, rule begin_found[OF assms f], rule begin_merged(1)[OF assms f],
          rule begin_merged(2)[OF assms f], rule begin_merged(3)[OF assms f],
          rule begin_merged(4)[OF assms f], rule begin_merged(5)[OF assms f])
  qed
  have fin: "\<And>x :: workflow. storage x = Some ?st \<Longrightarrow> session_id x = Some sid \<Longrightarrow>
      \<exists>session. store_ops (finalize C x) = ops st @ [Read sid, Upsert session]
        \<and> ws_session_id session = Some sid
        \<and> (writable st \<longrightarrow> stored (finalize C x) sid = Some session)"
  proof -
    fix x :: workflow
    assume "storage x = Some ?st" and "session_id x = Some sid"
    from finalize_store[OF this, of C] show
      "\<exists>session. store_ops (finalize C x) = ops st @ [Read sid, Upsert session]
        \<and> ws_session_id session = Some sid
        \<and> (writable st \<longrightarrow> stored (finalize C x) sid = Some session)"
      by simp
  qed
  have 6: "\<forall>result. subclass_run ?wb args kwargs = Response result
          \<longrightarrow> (\<exists>session.
                 store_ops (snd (run_workflow C subclass_run rid args kwargs w)) =
                   ops st @ [Read sid, Upsert session]
               \<and> ws_session_id session = Some sid
               \<and> (writable st \<longrightarrow>
                    stored (snd (run_workflow C subclass_run rid args kwargs w)) sid = Some session))"
  proof (intro allI impI)
    fix result
    assume "subclass_run ?wb args kwargs = Response result"
    then obtain c where r: "run_workflow C subclass_run rid args kwargs w =
       (Returned (stamp ?wb result), finalize C (?wb\<lparr>run_response := ?lit c\<rparr>))"
      using run_workflow_response by blast
    have "storage (?wb\<lparr>run_response := ?lit c\<rparr>) = Some ?st"
      and "session_id (?wb\<lparr>run_response := ?lit c\<rparr>) = Some sid"
      using 1 sidb by simp_all
    from fin[OF this] show "\<exists>session.
                 store_ops (snd (run_workflow C subclass_run rid args kwargs w)) =
                   ops st @ [Read sid, Upsert session]
               \<and> ws_session_id session = Some sid
               \<and> (writable st \<longrightarrow>
                    stored (snd (run_workflow C subclass_run rid args kwargs w)) sid = Some session)"
      unfolding r snd_conv .
  qed
  have 7: "\<forall>items. subclass_run ?wb args kwargs = Iterator items
          \<longrightarrow> (\<exists>wg. run_workflow C subclass_run rid args kwargs w = (Generator (Running items), wg)
               \<and> store_ops wg = ops st @ [Read sid]
               \<and> stored wg = stored w
               \<and> (\<forall>k. length items < k \<longrightarrow>
                     (\<exists>ys wk session. pulls C k (Running items) wg = Inr (ys, Exhausted, wk)
                        \<and> store_ops wk = ops st @ [Read sid, Upsert session]
                        \<and> ws_session_id session = Some sid
                        \<and> (writable st \<longrightarrow> stored wk sid = Some session))))"
  proof (intro allI impI)
    fix items
    assume it: "subclass_run ?wb args kwargs = Iterator items"
    let ?wg = "?wb\<lparr>run_response := ?lit (PStr [])\<rparr>"
    have c: "rr_content (run_response ?wg) = PStr []"
      by simp
    have a: "run_workflow C subclass_run rid args kwargs w = (Generator (Running items), ?wg)"
      using it by (rule run_workflow_iterator)
    have b: "store_ops ?wg = ops st @ [Read sid]"
      using 1 by (simp add: store_ops_def)
    have b': "stored ?wg = stored w"
      using 2 by (simp add: stored_def fun_eq_iff)
    have d: "\<forall>k. length items < k \<longrightarrow>
                     (\<exists>ys wk session. pulls C k (Running items) ?wg = Inr (ys, Exhausted, wk)
                        \<and> store_ops wk = ops st @ [Read sid, Upsert session]
                        \<and> ws_session_id session = Some sid
                        \<and> (writable st \<longrightarrow> stored wk sid = Some session))"
    proof (intro allI impI)
      fix k
      assume k: "length items < k"
      let ?wy = "absorbed [] items ?wg"
      have p: "pulls C k (Running items) ?wg =
          Inr (map (stamp_item ?wg) items, Exhausted, finalize C ?wy)"
        by (rule pulls_drained[OF c k])
      have "storage ?wy = Some ?st" and "session_id ?wy = Some sid"
        using 1 sidb by (simp_all add: absorbed_def)
      from fin[OF this] obtain session where
        "store_ops (finalize C ?wy) = ops st @ [Read sid, Upsert session]"
        "ws_session_id session = Some sid"
        "writable st \<longrightarrow> stored (finalize C ?wy) sid = Some session"
        by blast
      with p show "\<exists>ys wk session. pulls C k (Running items) ?wg = Inr (ys, Exhausted, wk)
                        \<and> store_ops wk = ops st @ [Read sid, Upsert session]
                        \<and> ws_session_id session = Some sid
                        \<and> (writable st \<longrightarrow> stored wk sid = Some session)"
        by blast
    qed
    show "\<exists>wg. run_workflow C subclass_run rid args kwargs w = (Generator (Running items), wg)
               \<and> store_ops wg = ops st @ [Read sid]
               \<and> stored wg = stored w
               \<and> (\<forall>k. length items < k \<longrightarrow>
                     (\<exists>ys wk session. pulls C k (Running items) wg = Inr (ys, Exhausted, wk)
                        \<and> store_ops wk = ops st @ [Read sid, Upsert session]
                        \<and> ws_session_id session = Some sid
                        \<and> (writable st \<longrightarrow> stored wk sid = Some session)))"
      by (rule exI, intro conjI, rule a, rule b, rule b', rule d)
  qed
  have 8: "\<forall>v. subclass_run ?wb args kwargs = Unexpected v
          \<longrightarrow> fst (run_workflow C subclass_run rid args kwargs w) = ReturnedNone
            \<and> store_ops (snd (run_workflow C subclass_run rid args kwargs w)) = ops st @ [Read sid]
            \<and> stored (snd (run_workflow C subclass_run rid args kwargs w)) = stored w"
  proof (intro allI impI)
    fix v
    assume "subclass_run ?wb args kwargs = Unexpected v"
    then have r: "run_workflow C subclass_run rid args kwargs w =
        (ReturnedNone, ?wb\<lparr>warnings := warnings ?wb @ [ReturnedNotRunResponse]\<rparr>)"
      by (rule run_workflow_unexpected)
    have "store_ops (?wb\<lparr>warnings := warnings ?wb @ [ReturnedNotRunResponse]\<rparr>) = ops st @ [Read sid]"
      using 1 by (simp add: store_ops_def)
    moreover have "stored (?wb\<lparr>warnings := warnings ?wb @ [ReturnedNotRunResponse]\<rparr>) = stored w"
      using 2 by (simp add: stored_def fun_eq_iff)
    ultimately show "fst (run_workflow C subclass_run rid args kwargs w) = ReturnedNone
            \<and> store_ops (snd (run_workflow C subclass_run rid args kwargs w)) = ops st @ [Read sid]
            \<and> stored (snd (run_workflow C subclass_run rid args kwargs w)) = stored w"
      unfolding r by simp
  qed
  show ?thesis
    by (intro conjI, rule 1, rule 2, rule 3, rule 4, rule 5, rule 6, rule 7, rule 8)
qed

theorem run_reads_session_only_witness:
  "storage (run_workflow_begin example_codec ''r1'' [] [] example_workflow) =
     Some (empty_storage\<lparr>ops := [Read ''s1'']\<rparr>)
   \<and> workflow_session (run_workflow_begin example_codec ''r1'' [] [] example_workflow) = None
   \<and> upserts (run_workflow_begin example_codec ''r1'' [] [] example_workflow) = 0
   \<and> (\<exists>session.
         store_ops (snd (run_workflow example_codec single_run ''r1'' [] [] example_workflow)) =
           [Read ''s1'', Upsert session]
       \<and> stored (snd (run_workflow example_codec single_run ''r1'' [] [] example_workflow)) ''s1''
           = Some session)
   \<and> (\<exists>wg ys wk session.
         run_workflow example_codec hello_run ''r1'' [] [] example_workflow =
           (Generator (Running hello_items), wg)
       \<and> store_ops wg = [Read ''s1'']
       \<and> pulls example_codec 4 (Running hello_items) wg = Inr (ys, Exhausted, wk)
       \<and> store_ops wk = [Read ''s1'', Upsert session]
       \<and> stored wk ''s1'' = Some session)
   \<and> store_ops (snd (run_workflow example_codec unexpected_run ''r1'' [] [] example_workflow)) =
       [Read ''s1'']
   \<and> stored (snd (run_workflow example_codec unexpected_run ''r1'' [] [] example_workflow)) ''s1''
       = None
   \<and> workflow_data (run_workflow_begin example_codec ''r1'' [] []
        (example_workflow\<lparr>workflow_data := Some [(''j'', PInt 2)],
           storage := Some (storage_with (example_session None (Some [(''k'', PInt 1)]) None))\<rparr>))
       = Some [(''k'', PInt 1), (''j'', PInt 2)]"
proof -
  let ?wb = "run_workflow_begin example_codec ''r1'' [] [] example_workflow"
  have st: "storage example_workflow = Some empty_storage"
    and sid: "session_id example_workflow = Some ''s1''"
    by (simp_all add: example_workflow_def)
  have e: "stored example_workflow ''s1'' = None" "upserts example_workflow = 0"
    by (simp_all add: stored_def upserts_def store_ops_def example_workflow_def empty_storage_def)
  have o: "empty_storage\<lparr>ops := ops empty_storage @ [Read ''s1'']\<rparr> =
      empty_storage\<lparr>ops := [Read ''s1'']\<rparr>"
    "ops empty_storage = []" "writable empty_storage"
    by (simp_all add: empty_storage_def)
  have s: "single_run ?wb [] [] = Response (fragment (PStr ''done''))"
    by (simp add: single_run_def)
  have h: "hello_run ?wb [] [] = Iterator hello_items"
    by (simp add: hello_run_def)
  have u: "unexpected_run ?wb [] [] = Unexpected (PInt 0)"
    by (simp add: unexpected_run_def)
  have n: "length hello_items < 4"
    by (simp add: hello_items_def)
  note t1 = run_reads_session_only[OF st sid, of example_codec "''r1''" "[]" "[]" single_run]
  note t2 = run_reads_session_only[OF st sid, of example_codec "''r1''" "[]" "[]" hello_run]
  note t3 = run_reads_session_only[OF st sid, of example_codec "''r1''" "[]" "[]" unexpected_run]
  from t1 have "storage ?wb = Some (empty_storage\<lparr>ops := ops empty_storage @ [Read ''s1'']\<rparr>)"
    by blast
  then have 1: "storage ?wb = Some (empty_storage\<lparr>ops := [Read ''s1'']\<rparr>)"
    by (simp add: empty_storage_def)
  from t1 e(1) have "?wb = (with_run ''r1'' [] [] example_workflow)
      \<lparr>storage := Some (empty_storage\<lparr>ops := ops empty_storage @ [Read ''s1'']\<rparr>),
        workflow_session := None\<rparr>"
    by blast
  then have "workflow_session ?wb = workflow_session ((with_run ''r1'' [] [] example_workflow)
      \<lparr>storage := Some (empty_storage\<lparr>ops := ops empty_storage @ [Read ''s1'']\<rparr>),
        workflow_session := None\<rparr>)"
    by (rule arg_cong)
  then have 2: "workflow_session ?wb = None"
    by simp
  from t1 have "upserts ?wb = upserts example_workflow"
    by blast
  with e(2) have 3: "upserts ?wb = 0"
    by simp
  from t1 s have "\<exists>session.
         store_ops (snd (run_workflow example_codec single_run ''r1'' [] [] example_workflow)) =
           ops empty_storage @ [Read ''s1'', Upsert session]
       \<and> ws_session_id session = Some ''s1''
       \<and> (writable empty_storage \<longrightarrow>
           stored (snd (run_workflow example_codec single_run ''r1'' [] [] example_workflow)) ''s1''
             = Some session)"
    by blast
  then have 4: "\<exists>session.
         store_ops (snd (run_workflow example_codec single_run ''r1'' [] [] example_workflow)) =
           [Read ''s1'', Upsert session]
       \<and> stored (snd (run_workflow example_codec single_run ''r1'' [] [] example_workflow)) ''s1''
           = Some session"
    using o(2,3) by auto
  from t2 h obtain wg where
    g1: "run_workflow example_codec hello_run ''r1'' [] [] example_workflow =
           (Generator (Running hello_items), wg)"
    and g2: "store_ops wg = ops empty_storage @ [Read ''s1'']"
    and g3: "\<forall>k. length hello_items < k \<longrightarrow>
         (\<exists>ys wk session. pulls example_codec k (Running hello_items) wg = Inr (ys, Exhausted, wk)
            \<and> store_ops wk = ops empty_storage @ [Read ''s1'', Upsert session]
            \<and> ws_session_id session = Some ''s1''
            \<and> (writable empty_storage \<longrightarrow> stored wk ''s1'' = Some session))"
    by blast
  from g3 n obtain ys wk session where
    g4: "pulls example_codec 4 (Running hello_items) wg = Inr (ys, Exhausted, wk)"
    and g5: "store_ops wk = ops empty_storage @ [Read ''s1'', Upsert session]"
    and g6: "writable empty_storage \<longrightarrow> stored wk ''s1'' = Some session"
    by blast
  from g2 g5 g6 o(2,3) have g7: "store_ops wg = [Read ''s1'']"
    "store_ops wk = [Read ''s1'', Upsert session]" "stored wk ''s1'' = Some session"
    by simp_all
  from g1 g4 g7 have 5: "\<exists>wg ys wk session.
         run_workflow example_codec hello_run ''r1'' [] [] example_workflow =
           (Generator (Running hello_items), wg)
       \<and> store_ops wg = [Read ''s1'']
       \<and> pulls example_codec 4 (Running hello_items) wg = Inr (ys, Exhausted, wk)
       \<and> store_ops wk = [Read ''s1'', Upsert session]
       \<and> stored wk ''s1'' = Some session"
    by blast
  from t3 u have 
    "store_ops (snd (run_workflow example_codec unexpected_run ''r1'' [] [] example_workflow)) =
       ops empty_storage @ [Read ''s1'']"
    "stored (snd (run_workflow example_codec unexpected_run ''r1'' [] [] example_workflow)) =
       stored example_workflow"
    by blast+
  then have 6:
    "store_ops (snd (run_workflow example_codec unexpected_run ''r1'' [] [] example_workflow)) =
       [Read ''s1'']"
    "stored (snd (run_workflow example_codec unexpected_run ''r1'' [] [] example_workflow)) ''s1''
       = None"
    using o(2) e(1) by simp_all
  let ?p = "example_session None (Some [(''k'', PInt 1)]) None"
  let ?v = "example_workflow\<lparr>workflow_data := Some [(''j'', PInt 2)],
           storage := Some (storage_with ?p)\<rparr>"
  have st': "storage ?v = Some (storage_with ?p)"
    and sid': "session_id ?v = Some ''s1''"
    by (simp_all add: example_workflow_def)
  have f: "stored ?v ''s1'' = Some ?p"
    by (simp add: stored_def storage_with_def)
  from run_reads_session_only[OF st' sid', of example_codec "''r1''" "[]" "[]" single_run] f
  have "workflow_data (run_workflow_begin example_codec ''r1'' [] [] ?v) =
      merge_opt (ws_workflow_data ?p) (workflow_data ?v)"
    by blast
  then have 7: "workflow_data (run_workflow_begin example_codec ''r1'' [] [] ?v) =
      Some [(''k'', PInt 1), (''j'', PInt 2)]"
    by (simp add: merge_opt_def merged_def example_session_def)
  show ?thesis
    by (intro conjI, rule 1, rule 2, rule 3, rule 4, rule 5, rule 6(1), rule 6(2), rule 7)
qed

subsection \<open>C7: the identity of the responses handed to the caller\<close>

text \<open>
  Claim C7.  The \<^verbatim>\<open>RunResponse\<close> that \<^verbatim>\<open>run_workflow\<close> returns, and every \<^verbatim>\<open>RunResponse\<close>
  that its generator yields after any number of pulls, carries the run id allocated for
  this run, the session id of the workflow and the workflow id of the workflow (as it is
  once the session has been read, which is the workflow's own id whenever it has one),
  whatever the subclass's \<^verbatim>\<open>run\<close> had put there; the content is untouched.
\<close>

theorem responses_stamped:
  "run_id (run_workflow_begin C rid args kwargs w) = Some rid
   \<and> session_id (run_workflow_begin C rid args kwargs w) = session_id w
   \<and> (workflow_id w \<noteq> None \<longrightarrow>
        workflow_id (run_workflow_begin C rid args kwargs w) = workflow_id w)
   \<and> (\<forall>result. subclass_run (run_workflow_begin C rid args kwargs w) args kwargs = Response result
        \<longrightarrow> (\<exists>r' w'. run_workflow C subclass_run rid args kwargs w = (Returned r', w')
               \<and> ids r' = (Some rid, session_id w,
                            workflow_id (run_workflow_begin C rid args kwargs w))
               \<and> rr_content r' = rr_content result))
   \<and> (\<forall>items k. subclass_run (run_workflow_begin C rid args kwargs w) args kwargs = Iterator items
        \<longrightarrow> (\<exists>wg ys g' w'. run_workflow C subclass_run rid args kwargs w =
                  (Generator (Running items), wg)
               \<and> pulls C k (Running items) wg = Inr (ys, g', w')
               \<and> length ys = min k (length items)
               \<and> (\<forall>r. Resp r \<in> set ys \<longrightarrow>
                     ids r = (Some rid, session_id w,
                              workflow_id (run_workflow_begin C rid args kwargs w)))))"
proof -
  let ?wb = "run_workflow_begin C rid args kwargs w"
  have 1: "run_id ?wb = Some rid" "session_id ?wb = session_id w"
    by (simp_all add: begin_keeps)
  have 2: "workflow_id w \<noteq> None \<longrightarrow> workflow_id ?wb = workflow_id w"
    by (simp add: begin_workflow_id)
  have 3: "\<forall>result. subclass_run ?wb args kwargs = Response result
        \<longrightarrow> (\<exists>r' w'. run_workflow C subclass_run rid args kwargs w = (Returned r', w')
               \<and> ids r' = (Some rid, session_id w, workflow_id ?wb)
               \<and> rr_content r' = rr_content result)"
  proof (intro allI impI)
    fix result
    assume "subclass_run ?wb args kwargs = Response result"
    then obtain c where "run_workflow C subclass_run rid args kwargs w =
       (Returned (stamp ?wb result),
        finalize C (?wb\<lparr>run_response := \<lparr>rr_run_id = Some rid, rr_session_id = session_id w,
                          rr_workflow_id = workflow_id w, rr_content = c\<rparr>\<rparr>))"
      using run_workflow_response by blast
    moreover have "ids (stamp ?wb result) = (Some rid, session_id w, workflow_id ?wb)"
      by (simp add: ids_def stamp_def begin_keeps)
    ultimately show "\<exists>r' w'. run_workflow C subclass_run rid args kwargs w = (Returned r', w')
               \<and> ids r' = (Some rid, session_id w, workflow_id ?wb)
               \<and> rr_content r' = rr_content result"
      by simp
  qed
  have 4: "\<forall>items k. subclass_run ?wb args kwargs = Iterator items
        \<longrightarrow> (\<exists>wg ys g' w'. run_workflow C subclass_run rid args kwargs w =
                  (Generator (Running items), wg)
               \<and> pulls C k (Running items) wg = Inr (ys, g', w')
               \<and> length ys = min k (length items)
               \<and> (\<forall>r. Resp r \<in> set ys \<longrightarrow> ids r = (Some rid, session_id w, workflow_id ?wb)))"
  proof (intro allI impI)
    fix items k
    assume it: "subclass_run ?wb args kwargs = Iterator items"
    let ?wg = "?wb\<lparr>run_response := \<lparr>rr_run_id = Some rid, rr_session_id = session_id w,
                          rr_workflow_id = workflow_id w, rr_content = PStr []\<rparr>\<rparr>"
    have c: "rr_content (run_response ?wg) = PStr []"
      by simp
    have a: "run_workflow C subclass_run rid args kwargs w = (Generator (Running items), ?wg)"
      using it by (rule run_workflow_iterator)
    obtain g' w' where b:
      "pulls C k (Running items) ?wg = Inr (map (stamp_item ?wg) (take k items), g', w')"
      using pulls_any[OF c] by blast
    have d: "length (map (stamp_item ?wg) (take k items)) = min k (length items)"
      by simp
    have e: "\<forall>r. Resp r \<in> set (map (stamp_item ?wg) (take k items)) \<longrightarrow>
        ids r = (Some rid, session_id w, workflow_id ?wb)"
      using stamped_ids[of _ ?wg "take k items"] by (simp add: begin_keeps)
    from a b d e
    show "\<exists>wg ys g' w'. run_workflow C subclass_run rid args kwargs w =
                  (Generator (Running items), wg)
               \<and> pulls C k (Running items) wg = Inr (ys, g', w')
               \<and> length ys = min k (length items)
               \<and> (\<forall>r. Resp r \<in> set ys \<longrightarrow> ids r = (Some rid, session_id w, workflow_id ?wb))"
      by blast
  qed
  from 1 2 3 4 show ?thesis by (intro conjI)
qed

theorem responses_stamped_witness:
  "(\<exists>r' w'. run_workflow example_codec single_run ''r1'' [] [] example_workflow = (Returned r', w')
       \<and> ids r' = (Some ''r1'', Some ''s1'', Some ''w1'')
       \<and> rr_content r' = PStr ''done'')
   \<and> (\<exists>wg ys g' w'. run_workflow example_codec hello_run ''r1'' [] [] example_workflow =
          (Generator (Running hello_items), wg)
       \<and> pulls example_codec 2 (Running hello_items) wg = Inr (ys, g', w')
       \<and> length ys = 2
       \<and> (\<forall>r. Resp r \<in> set ys \<longrightarrow> ids r = (Some ''r1'', Some ''s1'', Some ''w1'')))"
proof -
  let ?wb = "run_workflow_begin example_codec ''r1'' [] [] example_workflow"
  have i: "session_id example_workflow = Some ''s1''" "workflow_id example_workflow = Some ''w1''"
    by (simp_all add: example_workflow_def)
  have s: "single_run ?wb [] [] = Response (fragment (PStr ''done''))"
    by (simp add: single_run_def)
  have h: "hello_run ?wb [] [] = Iterator hello_items"
    by (simp add: hello_run_def)
  have n: "min 2 (length hello_items) = 2"
    by (simp add: hello_items_def)
  note t = responses_stamped[of example_codec "''r1''" "[]" "[]" example_workflow single_run]
  note t' = responses_stamped[of example_codec "''r1''" "[]" "[]" example_workflow hello_run]
  from t i have wid: "workflow_id ?wb = Some ''w1''"
    by simp
  from t s have 1: "\<exists>r' w'. run_workflow example_codec single_run ''r1'' [] [] example_workflow =
          (Returned r', w')
       \<and> ids r' = (Some ''r1'', session_id example_workflow, workflow_id ?wb)
       \<and> rr_content r' = rr_content (fragment (PStr ''done''))"
    by blast
  from t' h have 2: "\<exists>wg ys g' w'. run_workflow example_codec hello_run ''r1'' [] [] example_workflow =
          (Generator (Running hello_items), wg)
       \<and> pulls example_codec 2 (Running hello_items) wg = Inr (ys, g', w')
       \<and> length ys = min 2 (length hello_items)
       \<and> (\<forall>r. Resp r \<in> set ys \<longrightarrow>
             ids r = (Some ''r1'', session_id example_workflow, workflow_id ?wb))"
    by blast
  have c: "rr_content (fragment (PStr ''done'')) = PStr ''done''"
    by (simp add: fragment_def)
  from 1 2 show ?thesis
    unfolding i wid n c by (intro conjI)
qed

end
